theory Spec2Isabelle
  imports Complex_Main "HOL-Library.Sublist"
begin

section \<open>Data model (types/index.ts)\<close>

text \<open>
  JavaScript numbers holding seconds are modelled as \<^typ>\<open>real\<close>: the comparisons and the
  subtractions of the source are read over the reals, rounding and NaN left aside.
  Millisecond timestamps (\<^verbatim>\<open>Date.now()\<close>) are \<^typ>\<open>int\<close>.
\<close>

datatype SkipType = Intro | Credits | Recap | Preview

datatype MarkerSource = Chapter | Fingerprint | Manual

record SkipMarker =
  type :: SkipType
  startTime :: real
  endTime :: real
  source :: MarkerSource

record SkipSettings =
  enabledChapterSkip :: bool
  enabledAudioSkip :: bool
  enabledCommunitySkip :: bool
  enabledManualSkip :: bool
  autoSkipEnabled :: bool
  skipFadeTimeMs :: real
  globalIntroSkipSeconds :: real
  globalCreditsSkipSeconds :: real

section \<open>The player component (components/VideoPlayer.tsx)\<close>

text \<open>
  The playback primitive returned by \<^verbatim>\<open>useVideoPlayer\<close>: the four members the component
  reads and writes. Its \<^verbatim>\<open>duration\<close> is named \<open>playerDuration\<close> here, the component has
  a state variable of the same name.
\<close>

record Player =
  currentTime :: real
  playerDuration :: real
  playbackRate :: real
  playing :: bool

text \<open>
  The props and the state variables of \<^verbatim>\<open>VideoPlayer\<close> that the skip logic reads or
  writes, the player object, and the two pieces of the auto-skip effect that live outside React state:
  the closure variable \<^verbatim>\<open>countdown\<close> and whether the interval held by the ref
  \<^verbatim>\<open>autoSkipInterval\<close> is still registered.
\<close>

record VideoPlayer =
  skipSettings :: SkipSettings
  communitySkipMarkers :: "SkipMarker list"
  manualIntroSkip :: real
  manualCreditsSkip :: real
  currentPosition :: real
  duration :: real
  activeSkipMarker :: "SkipMarker option"
  autoSkipCountdown :: "int option"
  player :: Player
  countdown :: int
  autoSkipInterval :: bool

subsection \<open>Active-marker resolution effect (lines 174-224)\<close>

text \<open>
  The \<^verbatim>\<open>for\<close> loop over the community markers: the first marker passing one of the two
  tests is returned, \<open>None\<close> when the loop runs to its end.
\<close>

fun firstCommunityMatch :: "real \<Rightarrow> SkipMarker list \<Rightarrow> SkipMarker option" where
  "firstCommunityMatch position [] = None"
| "firstCommunityMatch position (marker # rest) =
     (if type marker = Intro \<and> position \<ge> startTime marker \<and> position < endTime marker
      then Some marker
      else if type marker = Credits \<and> position \<ge> startTime marker - 10
                \<and> position < endTime marker
      then Some marker
      else firstCommunityMatch position rest)"

text \<open>
  One run of the effect either calls \<^verbatim>\<open>setActiveSkipMarker\<close> with a value or leaves the
  state variable alone.
\<close>

datatype MarkerUpdate = SetActiveSkipMarker "SkipMarker option" | NoUpdate

text \<open>
  The effect in two parts: \<open>manualFallback\<close> is the code after the community loop
  (from the comment \<^verbatim>\<open>Priority 2\<close> on), where \<^verbatim>\<open>activeSkipMarker?.type\<close> is the type of
  the marker active before this run; \<open>resolveUpdate\<close> is the whole effect body.
\<close>

definition manualFallback :: "VideoPlayer \<Rightarrow> MarkerUpdate" where
  "manualFallback s =
     (let position = currentPosition s in
      if \<not> enabledManualSkip (skipSettings s) then SetActiveSkipMarker None
      else if manualIntroSkip s > 0 \<and> position < manualIntroSkip s then
        SetActiveSkipMarker (Some \<lparr>type = Intro, startTime = 0,
                                   endTime = manualIntroSkip s, source = Manual\<rparr>)
      else if manualCreditsSkip s > 0 \<and> duration s > 0 then
        (let creditsStart = duration s - manualCreditsSkip s in
         if position \<ge> creditsStart - 10 \<and> position < duration s - 5 then
           SetActiveSkipMarker (Some \<lparr>type = Credits, startTime = creditsStart,
                                      endTime = duration s, source = Manual\<rparr>)
         else if map_option type (activeSkipMarker s) = Some Credits then
           SetActiveSkipMarker None
         else NoUpdate)
      else if map_option type (activeSkipMarker s) = Some Intro then
        SetActiveSkipMarker None
      else NoUpdate)"

definition resolveUpdate :: "VideoPlayer \<Rightarrow> MarkerUpdate" where
  "resolveUpdate s =
     (if duration s = 0 then SetActiveSkipMarker None
      else
        (case (if enabledCommunitySkip (skipSettings s) \<and> length (communitySkipMarkers s) > 0
               then firstCommunityMatch (currentPosition s) (communitySkipMarkers s)
               else None) of
           Some marker \<Rightarrow> SetActiveSkipMarker (Some marker)
         | None \<Rightarrow> manualFallback s))"

definition resolveEffect :: "VideoPlayer \<Rightarrow> VideoPlayer" where
  "resolveEffect s =
     (case resolveUpdate s of
        SetActiveSkipMarker m \<Rightarrow> s\<lparr>activeSkipMarker := m\<rparr>
      | NoUpdate \<Rightarrow> s)"

text \<open>A position sample followed by the effect it triggers.\<close>

definition tick :: "real \<Rightarrow> real \<Rightarrow> VideoPlayer \<Rightarrow> VideoPlayer" where
  "tick position dur s = resolveEffect (s\<lparr>currentPosition := position, duration := dur\<rparr>)"

text \<open>
  The activation window of a community marker in the words of the specification, used to
  state which markers are candidates at a position.
\<close>

definition inActivationWindow :: "real \<Rightarrow> SkipMarker \<Rightarrow> bool" where
  "inActivationWindow p m =
     (case type m of
        Intro \<Rightarrow> startTime m \<le> p \<and> p < endTime m
      | Credits \<Rightarrow> startTime m - 10 \<le> p \<and> p < endTime m
      | _ \<Rightarrow> False)"

subsection \<open>Auto-skip countdown effect and \<^verbatim>\<open>handleSkip\<close> (lines 226-259)\<close>

text \<open>
  \<^verbatim>\<open>handleSkip\<close> tests \<^verbatim>\<open>activeSkipMarker && player\<close>; the player object always exists.
\<close>

definition handleSkip :: "VideoPlayer \<Rightarrow> VideoPlayer" where
  "handleSkip s =
     (case activeSkipMarker s of
        Some marker \<Rightarrow>
          s\<lparr>player := (player s)\<lparr>currentTime := endTime marker\<rparr>, activeSkipMarker := None\<rparr>
      | None \<Rightarrow> s)"

text \<open>
  The three pieces of the effect: its body, the callback of the one-second interval (which
  runs only while the interval is registered), and its cleanup. When the cleanup and the
  body run is decided by the dependencies of the effect; that is \<open>commitEffects\<close> below.
\<close>

definition autoSkipEffect :: "VideoPlayer \<Rightarrow> VideoPlayer" where
  "autoSkipEffect s =
     (if activeSkipMarker s \<noteq> None \<and> autoSkipEnabled (skipSettings s) then
        s\<lparr>countdown := 3, autoSkipCountdown := Some 3, autoSkipInterval := True\<rparr>
      else s\<lparr>autoSkipCountdown := None\<rparr>)"

definition autoSkipTick :: "VideoPlayer \<Rightarrow> VideoPlayer" where
  "autoSkipTick s =
     (if \<not> autoSkipInterval s then s
      else
        (let s = s\<lparr>countdown := countdown s - 1\<rparr> in
         if countdown s \<le> 0 then
           (handleSkip s)\<lparr>autoSkipCountdown := None, autoSkipInterval := False\<rparr>
         else s\<lparr>autoSkipCountdown := Some (countdown s)\<rparr>))"

definition autoSkipCleanup :: "VideoPlayer \<Rightarrow> VideoPlayer" where
  "autoSkipCleanup s = s\<lparr>autoSkipInterval := False\<rparr>"

text \<open>
  \<^verbatim>\<open>DEFAULT_SKIP_SETTINGS\<close> of types/index.ts, and the component as it is mounted: the
  initial values of its \<^verbatim>\<open>useState\<close> calls and the defaults of its props.
\<close>

definition DEFAULT_SKIP_SETTINGS :: SkipSettings where
  "DEFAULT_SKIP_SETTINGS =
     \<lparr>enabledChapterSkip = True, enabledAudioSkip = True, enabledCommunitySkip = True,
      enabledManualSkip = True, autoSkipEnabled = False, skipFadeTimeMs = 500,
      globalIntroSkipSeconds = 0, globalCreditsSkipSeconds = 0\<rparr>"

definition mounted :: "SkipSettings \<Rightarrow> SkipMarker list \<Rightarrow> real \<Rightarrow> real \<Rightarrow> VideoPlayer" where
  "mounted settings markers introSeconds creditsSeconds =
     \<lparr>skipSettings = settings, communitySkipMarkers = markers,
      manualIntroSkip = introSeconds, manualCreditsSkip = creditsSeconds,
      currentPosition = 0, duration = 0,
      activeSkipMarker = None, autoSkipCountdown = None,
      player = \<lparr>currentTime = 0, playerDuration = 0, playbackRate = 1, playing = True\<rparr>,
      countdown = 0, autoSkipInterval = False\<rparr>"

text \<open>
  The scenario of the specification: community skip off, manual skip on, no community
  markers, manual intro 90 s, manual credits as given.
\<close>

definition scenario :: "real \<Rightarrow> VideoPlayer" where
  "scenario creditsSeconds =
     mounted (DEFAULT_SKIP_SETTINGS\<lparr>enabledCommunitySkip := False\<rparr>) [] 90 creditsSeconds"

section \<open>Render cycle and timers of the player component\<close>

text \<open>
  The effects of \<^verbatim>\<open>VideoPlayer\<close> run when React finds one of their dependencies changed,
  compared with \<^verbatim>\<open>Object.is\<close>. For the auto-skip effect the dependency
  \<^verbatim>\<open>activeSkipMarker\<close> is an object, so what counts is which object the state holds: an
  element of the prop array \<^verbatim>\<open>communitySkipMarkers\<close> (named by its index), or the object
  literal that a run of the resolution effect creates (named by a counter, every run
  creating a new one).
\<close>

datatype ObjectRef = PropMarker nat | Literal nat

type_synonym ResolveDeps =
  "real \<times> real \<times> real \<times> real \<times> bool \<times> bool \<times> SkipMarker list \<times> SkipType option"

text \<open>
  The component with what the render cycle needs: the object held by
  \<^verbatim>\<open>activeSkipMarker\<close>, the number of marker literals created so far, the dependency
  values at the last run of the resolution effect and of the auto-skip effect (none before
  the first run), the time in milliseconds, and the times at which the 500 ms sampling
  interval and the 1000 ms auto-skip interval fire next.
\<close>

record Component =
  view :: VideoPlayer
  activeObject :: "ObjectRef option"
  literals :: nat
  resolveRan :: "ResolveDeps option"
  autoSkipRan :: "(ObjectRef option \<times> bool) option"
  clock :: nat
  pollDue :: nat
  autoSkipDue :: nat

text \<open>
  The dependency arrays of the two effects (lines 224 and 252). The props stay the same
  objects during a run, so the array \<^verbatim>\<open>communitySkipMarkers\<close> is compared by its value.
\<close>

definition resolveDeps :: "VideoPlayer \<Rightarrow> ResolveDeps" where
  "resolveDeps s =
     (currentPosition s, duration s, manualIntroSkip s, manualCreditsSkip s,
      enabledManualSkip (skipSettings s), enabledCommunitySkip (skipSettings s),
      communitySkipMarkers s, map_option type (activeSkipMarker s))"

definition autoSkipDeps :: "Component \<Rightarrow> ObjectRef option \<times> bool" where
  "autoSkipDeps c = (activeObject c, autoSkipEnabled (skipSettings (view c)))"

text \<open>
  The object that the resolution effect passes to \<^verbatim>\<open>setActiveSkipMarker\<close> when it sets a
  marker: the matching element of the prop array, or a new literal.
\<close>

definition markerObject :: "Component \<Rightarrow> ObjectRef" where
  "markerObject c =
     (let s = view c in
      if enabledCommunitySkip (skipSettings s) \<and> length (communitySkipMarkers s) > 0
         \<and> firstCommunityMatch (currentPosition s) (communitySkipMarkers s) \<noteq> None
      then PropMarker (length (takeWhile
             (\<lambda>marker. firstCommunityMatch (currentPosition s) [marker] = None)
             (communitySkipMarkers s)))
      else Literal (literals c))"

definition stable :: "Component \<Rightarrow> bool" where
  "stable c \<longleftrightarrow> resolveRan c = Some (resolveDeps (view c)) \<and> autoSkipRan c = Some (autoSkipDeps c)"

text \<open>
  One commit. The effects whose dependencies changed run on the state of this render: the
  cleanup of the auto-skip effect, then the resolution effect, then the auto-skip effect,
  whose interval fires first one second later. The marker set by the resolution effect
  reaches the state after the effects, for the next render.
\<close>

definition commitEffects :: "Component \<Rightarrow> Component" where
  "commitEffects c =
     (let s = view c;
          runResolve = (resolveRan c \<noteq> Some (resolveDeps s));
          runAutoSkip = (autoSkipRan c \<noteq> Some (autoSkipDeps c));
          update = (if runResolve then resolveUpdate s else NoUpdate);
          s' = (if runAutoSkip then autoSkipEffect (autoSkipCleanup s) else s);
          c' = c\<lparr>resolveRan := (if runResolve then Some (resolveDeps s) else resolveRan c),
                 autoSkipRan := (if runAutoSkip then Some (autoSkipDeps c) else autoSkipRan c),
                 autoSkipDue := (if runAutoSkip \<and> autoSkipInterval s' then clock c + 1000
                                 else autoSkipDue c)\<rparr>
      in case update of
           NoUpdate \<Rightarrow> c'\<lparr>view := s'\<rparr>
         | SetActiveSkipMarker None \<Rightarrow>
             c'\<lparr>view := s'\<lparr>activeSkipMarker := None\<rparr>, activeObject := None\<rparr>
         | SetActiveSkipMarker (Some marker) \<Rightarrow>
             c'\<lparr>view := s'\<lparr>activeSkipMarker := Some marker\<rparr>,
                activeObject := Some (markerObject c),
                literals := (case markerObject c of
                               Literal n \<Rightarrow> Suc (literals c) | PropMarker i \<Rightarrow> literals c)\<rparr>)"

text \<open>
  Commits are repeated until no dependency has changed; \<open>None\<close> when the given number of
  commits does not reach that point.
\<close>

fun rerender :: "nat \<Rightarrow> Component \<Rightarrow> Component option" where
  "rerender n c =
     (if stable c then Some c
      else if n = 0 then None
      else rerender (n - 1) (commitEffects c))"

declare rerender.simps [simp del]

text \<open>
  The callback of the sampling interval (lines 164-170), and the playback primitive while
  time passes: a playing player moves its position at its playback rate.
\<close>

definition pollCallback :: "VideoPlayer \<Rightarrow> VideoPlayer" where
  "pollCallback s =
     s\<lparr>currentPosition := currentTime (player s), duration := playerDuration (player s)\<rparr>"

definition elapse :: "nat \<Rightarrow> Player \<Rightarrow> Player" where
  "elapse ms p =
     (if playing p then p\<lparr>currentTime := currentTime p + real ms / 1000 * playbackRate p\<rparr>
      else p)"

text \<open>
  The next timer to fire: the sampling interval, or the auto-skip interval when it is
  registered and due before the next sample (at equal times the sample goes first: the
  auto-skip interval is registered by an effect, after the callback that caused it). Time
  moves to that point, the callback runs, and the component is rendered until it settles.
\<close>

definition advance :: "Component \<Rightarrow> Component option" where
  "advance c =
     (let pollFirst = (\<not> autoSkipInterval (view c) \<or> pollDue c \<le> autoSkipDue c);
          t = (if pollFirst then pollDue c else autoSkipDue c);
          s = (view c)\<lparr>player := elapse (t - clock c) (player (view c))\<rparr>
      in if pollFirst then
           rerender 50 (c\<lparr>clock := t, view := pollCallback s, pollDue := t + 500\<rparr>)
         else
           rerender 50 (c\<lparr>clock := t, view := autoSkipTick s, autoSkipDue := t + 1000,
                          activeObject := (if activeSkipMarker (autoSkipTick s) = None then None
                                           else activeObject c)\<rparr>))"

fun simulate :: "nat \<Rightarrow> Component \<Rightarrow> Component option" where
  "simulate n c =
     (if n = 0 then Some c
      else case advance c of None \<Rightarrow> None | Some c' \<Rightarrow> simulate (n - 1) c')"

declare simulate.simps [simp del]

text \<open>
  Mounting the component on a player that plays a video of the given length from its start:
  the sampling interval is registered and the effects run for the first time.
\<close>

definition mount :: "SkipSettings \<Rightarrow> SkipMarker list \<Rightarrow> real \<Rightarrow> real \<Rightarrow> real \<Rightarrow> Component option" where
  "mount settings markers introSeconds creditsSeconds videoLength =
     rerender 50
       \<lparr>view = (mounted settings markers introSeconds creditsSeconds)
                 \<lparr>player := \<lparr>currentTime = 0, playerDuration = videoLength,
                              playbackRate = 1, playing = True\<rparr>\<rparr>,
        activeObject = None, literals = 0, resolveRan = None, autoSkipRan = None,
        clock = 0, pollDue = 500, autoSkipDue = 0\<rparr>"

text \<open>
  What is seen of the component after a number of timer firings: the time, the player's
  position, the active marker, the countdown shown and whether the auto-skip interval is
  registered.
\<close>

definition observe ::
  "Component option \<Rightarrow> (nat \<times> real \<times> SkipMarker option \<times> int option \<times> bool) option" where
  "observe r =
     map_option (\<lambda>c. (clock c, currentTime (player (view c)), activeSkipMarker (view c),
                       autoSkipCountdown (view c), autoSkipInterval (view c))) r"

definition afterFirings :: "nat \<Rightarrow> Component option \<Rightarrow> Component option" where
  "afterFirings n r = (case r of None \<Rightarrow> None | Some c \<Rightarrow> simulate n c)"

section \<open>Community skip service (services/communitySkipService.ts)\<close>

text \<open>
  \<^verbatim>\<open>IntroHaterResponse\<close> and \<^verbatim>\<open>StremioSkipResponse\<close>: both carry an optional \<^verbatim>\<open>intro\<close> and
  an optional \<^verbatim>\<open>outro\<close> segment, and the conversion tests each bound against
  \<^verbatim>\<open>undefined\<close>, so the bounds are optional too. The flat fields \<^verbatim>\<open>s\<close> and \<^verbatim>\<open>e\<close> of the
  second interface are never read. The bound \<^verbatim>\<open>end\<close> is named \<open>end'\<close>.
\<close>

record Segment =
  start :: "real option"
  end' :: "real option"

record SkipResponse =
  intro :: "Segment option"
  outro :: "Segment option"

definition convertToSkipMarkers :: "SkipResponse \<Rightarrow> SkipMarker list" where
  "convertToSkipMarkers data =
     (let markers = [];
          markers =
            (case (Option.bind (intro data) start, Option.bind (intro data) end') of
               (Some s, Some e) \<Rightarrow>
                 markers @ [\<lparr>type = Intro, startTime = s, endTime = e, source = Fingerprint\<rparr>]
             | _ \<Rightarrow> markers);
          markers =
            (case (Option.bind (outro data) start, Option.bind (outro data) end') of
               (Some s, Some e) \<Rightarrow>
                 markers @ [\<lparr>type = Credits, startTime = s, endTime = e, source = Fingerprint\<rparr>]
             | _ \<Rightarrow> markers)
      in markers)"

text \<open>
  What a provider request can do: \<^verbatim>\<open>fetch\<close> rejects (network failure, timeout), or it
  resolves with a response whose \<^verbatim>\<open>ok\<close> flag is given and whose body fails to parse, parses
  to \<^verbatim>\<open>null\<close>, or parses to an object. Exceptions are values of \<open>JsError\<close>; a promise is
  the sum of its rejection and its value.
\<close>

datatype JsError = NetworkError | SyntaxError | TypeError

datatype JsonBody = MalformedJson | JsonNull | JsonObject SkipResponse

datatype FetchOutcome = FetchRejected | Response bool JsonBody

datatype Provider = IntroHater | Stremio

definition try_catch :: "JsError + 'a \<Rightarrow> (JsError \<Rightarrow> JsError + 'a) \<Rightarrow> JsError + 'a" where
  "try_catch body handler = (case body of Inl error \<Rightarrow> handler error | Inr v \<Rightarrow> Inr v)"

definition json :: "JsonBody \<Rightarrow> JsError + SkipResponse option" where
  "json body =
     (case body of
        MalformedJson \<Rightarrow> Inl SyntaxError
      | JsonNull \<Rightarrow> Inr None
      | JsonObject data \<Rightarrow> Inr (Some data))"

text \<open>
  The body shared by the two provider methods after the request: a response that is not
  \<^verbatim>\<open>ok\<close> gives the empty list, \<^verbatim>\<open>response.json()\<close> may throw, and reading \<^verbatim>\<open>data.intro\<close>
  of \<^verbatim>\<open>null\<close> throws a \<^verbatim>\<open>TypeError\<close>.
\<close>

definition readMarkers :: "FetchOutcome \<Rightarrow> JsError + SkipMarker list" where
  "readMarkers outcome =
     (case outcome of
        FetchRejected \<Rightarrow> Inl NetworkError
      | Response ok body \<Rightarrow>
          if \<not> ok then Inr []
          else (case json body of
                  Inl error \<Rightarrow> Inl error
                | Inr None \<Rightarrow> Inl TypeError
                | Inr (Some data) \<Rightarrow> Inr (convertToSkipMarkers data)))"

definition getIntroHaterMarkers :: "FetchOutcome \<Rightarrow> JsError + SkipMarker list" where
  "getIntroHaterMarkers outcome = try_catch (readMarkers outcome) (\<lambda>error. Inr [])"

definition getStremioSkipMarkers :: "FetchOutcome \<Rightarrow> JsError + SkipMarker list" where
  "getStremioSkipMarkers outcome = try_catch (readMarkers outcome) (\<lambda>error. Inr [])"

definition promiseAll :: "JsError + 'a \<Rightarrow> JsError + 'b \<Rightarrow> JsError + ('a \<times> 'b)" where
  "promiseAll p q =
     (case p of
        Inl error \<Rightarrow> Inl error
      | Inr x \<Rightarrow> (case q of Inl error \<Rightarrow> Inl error | Inr y \<Rightarrow> Inr (x, y)))"

text \<open>The loop that adds the second provider's markers to \<^verbatim>\<open>allMarkers\<close>.\<close>

fun addStremioMarkers :: "SkipMarker list \<Rightarrow> SkipMarker list \<Rightarrow> SkipMarker list" where
  "addStremioMarkers allMarkers [] = allMarkers"
| "addStremioMarkers allMarkers (marker # rest) =
     (let exists = list_ex (\<lambda>m. type m = type marker
                              \<and> \<bar>startTime m - startTime marker\<bar> < 2) allMarkers
      in addStremioMarkers (if \<not> exists then allMarkers @ [marker] else allMarkers) rest)"

text \<open>
  The cache key: \<^verbatim>\<open>String(n)\<close> of an integer and \<^verbatim>\<open>padStart(2, "0")\<close>.
\<close>

fun digits :: "nat \<Rightarrow> string" where
  "digits n = (if n < 10 then [char_of (48 + n)]
               else digits (n div 10) @ [char_of (48 + n mod 10)])"

declare digits.simps [simp del]

definition String :: "int \<Rightarrow> string" where
  "String n = (if n < 0 then CHR ''-'' # digits (nat (- n)) else digits (nat n))"

definition padStart :: "nat \<Rightarrow> char \<Rightarrow> string \<Rightarrow> string" where
  "padStart targetLength c s = replicate (targetLength - length s) c @ s"

definition cacheKey :: "string \<Rightarrow> int \<Rightarrow> int \<Rightarrow> string" where
  "cacheKey imdbId season episode =
     imdbId @ ''_s'' @ padStart 2 CHR ''0'' (String season)
       @ ''e'' @ padStart 2 CHR ''0'' (String episode)"

record CommunitySkipService =
  cache :: "string \<rightharpoonup> SkipMarker list"
  lastFetchTime :: "string \<rightharpoonup> int"

definition cacheTTL :: int where
  "cacheTTL = 24 * 60 * 60 * 1000"

text \<open>
  One call of \<^verbatim>\<open>getSkipMarkersForEpisode\<close>. \<open>now\<close> is the clock at the cache check,
  \<open>nowStored\<close> the clock when the merged list is cached; the two outcomes are what the
  provider requests do if they are issued. The call returns how its promise settles, the
  provider requests it issued, and the service afterwards. In the cache test an array is
  always truthy and a timestamp is truthy unless it is 0. The last case is the
  \<^verbatim>\<open>catch\<close> of the method.
\<close>

definition cacheHit :: "CommunitySkipService \<Rightarrow> string \<Rightarrow> int \<Rightarrow> SkipMarker list option" where
  "cacheHit svc key now =
     (case (cache svc key, lastFetchTime svc key) of
        (Some cached, Some lastFetch) \<Rightarrow>
          if lastFetch \<noteq> 0 \<and> now - lastFetch < cacheTTL then Some cached else None
      | _ \<Rightarrow> None)"

definition getSkipMarkersForEpisode ::
  "CommunitySkipService \<Rightarrow> string \<Rightarrow> int \<Rightarrow> int \<Rightarrow> int \<Rightarrow> FetchOutcome \<Rightarrow> FetchOutcome \<Rightarrow> int
     \<Rightarrow> (JsError + SkipMarker list) \<times> Provider list \<times> CommunitySkipService" where
  "getSkipMarkersForEpisode svc imdbId season episode now introHater stremio nowStored =
     (let key = cacheKey imdbId season episode in
      case cacheHit svc key now of
        Some cached \<Rightarrow> (Inr cached, [], svc)
      | None \<Rightarrow>
          (case promiseAll (getIntroHaterMarkers introHater) (getStremioSkipMarkers stremio) of
             Inr (introHaterMarkers, stremioMarkers) \<Rightarrow>
               (let allMarkers = addStremioMarkers introHaterMarkers stremioMarkers
                in (Inr allMarkers, [IntroHater, Stremio],
                    svc\<lparr>cache := (cache svc)(key \<mapsto> allMarkers),
                        lastFetchTime := (lastFetchTime svc)(key \<mapsto> nowStored)\<rparr>))
           | Inl error \<Rightarrow> (Inr [], [IntroHater, Stremio], svc)))"

definition clearCache :: "CommunitySkipService \<Rightarrow> CommunitySkipService" where
  "clearCache svc = svc\<lparr>cache := Map.empty, lastFetchTime := Map.empty\<rparr>"

text \<open>The service as the module creates it.\<close>

definition communitySkipService :: CommunitySkipService where
  "communitySkipService = \<lparr>cache = Map.empty, lastFetchTime = Map.empty\<rparr>"

text \<open>
  A provider request fails when the request is rejected, the status is not 2xx, or the body
  is not a JSON object.
\<close>

fun failed :: "FetchOutcome \<Rightarrow> bool" where
  "failed FetchRejected = True"
| "failed (Response ok (JsonObject data)) = (\<not> ok)"
| "failed (Response ok body) = True"

section \<open>Scrobble hook \<^verbatim>\<open>useTrakt\<close> and \<^verbatim>\<open>createScrobbleData\<close>\<close>

text \<open>
  The payload built by \<^verbatim>\<open>createScrobbleData\<close> (services/traktService): a show with its
  episode when season and episode are both given, a movie otherwise; the ids are present
  when the IMDb id is a non-empty string; the progress is clamped to the range 0 to 100.
\<close>

datatype ScrobbleMedia = Show string "string option" int int | Movie string "string option"

record ScrobbleData =
  media :: ScrobbleMedia
  progress :: real
  app_version :: string

definition truthy :: "string option \<Rightarrow> bool" where
  "truthy v = (case v of None \<Rightarrow> False | Some str \<Rightarrow> str \<noteq> [])"

definition createScrobbleData ::
  "string option \<Rightarrow> string \<Rightarrow> int option \<Rightarrow> int option \<Rightarrow> real \<Rightarrow> ScrobbleData" where
  "createScrobbleData imdbId title season episode progress' =
     (case (season, episode) of
        (Some se, Some ep) \<Rightarrow>
          \<lparr>media = Show title (if truthy imdbId then imdbId else None) se ep,
           progress = min 100 (max 0 progress'), app_version = ''1.0.0''\<rparr>
      | _ \<Rightarrow>
          \<lparr>media = Movie title (if truthy imdbId then imdbId else None),
           progress = min 100 (max 0 progress'), app_version = ''1.0.0''\<rparr>)"

text \<open>
  The hook: the access token of the settings, the options it was called with (IMDb id,
  title, season, episode), its four refs, and the calls it has made to \<^verbatim>\<open>traktService\<close>,
  oldest first.
\<close>

datatype ScrobbleAction = Start | Pause | Stop

datatype UseTraktOptions = UseTraktOptions "string option" string "int option" "int option"

record UseTrakt =
  accessToken :: "string option"
  options :: UseTraktOptions
  lastProgress :: real
  hasScrobbledStart :: bool
  hasScrobbled80 :: bool
  isPlaying :: bool
  scrobbles :: "(ScrobbleAction \<times> ScrobbleData) list"

fun scrobbleData :: "UseTraktOptions \<Rightarrow> real \<Rightarrow> ScrobbleData" where
  "scrobbleData (UseTraktOptions imdbId title season episode) progress' =
     createScrobbleData imdbId title season episode progress'"

definition useTrakt :: "string option \<Rightarrow> UseTraktOptions \<Rightarrow> UseTrakt" where
  "useTrakt token opts =
     \<lparr>accessToken = token, options = opts, lastProgress = 0, hasScrobbledStart = False,
      hasScrobbled80 = False, isPlaying = False, scrobbles = []\<rparr>"

definition resetScrobbleState :: "UseTrakt \<Rightarrow> UseTrakt" where
  "resetScrobbleState h = h\<lparr>hasScrobbledStart := False, hasScrobbled80 := False, lastProgress := 0\<rparr>"

text \<open>\<open>success\<close> is the boolean returned by \<^verbatim>\<open>traktService.scrobbleStart\<close>.\<close>

definition scrobbleStart :: "bool \<Rightarrow> UseTrakt \<Rightarrow> UseTrakt" where
  "scrobbleStart success h =
     (if \<not> truthy (accessToken h) then h
      else if hasScrobbledStart h then h
      else
        (let h = h\<lparr>scrobbles := scrobbles h @ [(Start, scrobbleData (options h) 0)]\<rparr> in
         if success then h\<lparr>hasScrobbledStart := True, isPlaying := True\<rparr> else h))"

definition scrobblePause :: "real \<Rightarrow> UseTrakt \<Rightarrow> UseTrakt" where
  "scrobblePause progress' h =
     (if \<not> truthy (accessToken h) then h
      else if \<not> isPlaying h then h
      else h\<lparr>scrobbles := scrobbles h @ [(Pause, scrobbleData (options h) progress')],
             isPlaying := False\<rparr>)"

definition scrobbleStop :: "real \<Rightarrow> UseTrakt \<Rightarrow> UseTrakt" where
  "scrobbleStop progress' h =
     (if \<not> truthy (accessToken h) then h
      else h\<lparr>scrobbles := scrobbles h @ [(Stop, scrobbleData (options h) progress')],
             isPlaying := False\<rparr>)"

definition updateProgress :: "real \<Rightarrow> real \<Rightarrow> UseTrakt \<Rightarrow> UseTrakt" where
  "updateProgress currentTime' duration' h =
     (if \<not> truthy (accessToken h) \<or> duration' = 0 then h
      else
        (let progress' = (currentTime' / duration') * 100;
             h = h\<lparr>lastProgress := progress'\<rparr>
         in if progress' \<ge> 80 \<and> \<not> hasScrobbled80 h then
              h\<lparr>hasScrobbled80 := True,
                scrobbles := scrobbles h @ [(Stop, scrobbleData (options h) progress')]\<rparr>
            else h))"

definition onPlay :: "bool \<Rightarrow> UseTrakt \<Rightarrow> UseTrakt" where
  "onPlay success h =
     (if \<not> hasScrobbledStart h then scrobbleStart success h
      else if \<not> isPlaying h then
        h\<lparr>scrobbles := scrobbles h @ [(Start, scrobbleData (options h) (lastProgress h))],
          isPlaying := True\<rparr>
      else h)"

definition onPause :: "UseTrakt \<Rightarrow> UseTrakt" where
  "onPause h = scrobblePause (lastProgress h) h"

definition onStop :: "UseTrakt \<Rightarrow> UseTrakt" where
  "onStop h = resetScrobbleState (scrobbleStop (lastProgress h) h)"

text \<open>
  A playback session as the sequence of calls made on the hook. \<open>completionReports\<close>
  collects the payloads of the calls that the progress updates of a run make to
  \<^verbatim>\<open>traktService\<close>.
\<close>

datatype Event =
    UpdateProgress real real
  | ScrobbleStart bool
  | ScrobblePause real
  | ScrobbleStop real
  | OnPlay bool
  | OnPause
  | OnStop
  | ResetScrobbleState

fun step :: "Event \<Rightarrow> UseTrakt \<Rightarrow> UseTrakt" where
  "step (UpdateProgress currentTime' duration') h = updateProgress currentTime' duration' h"
| "step (ScrobbleStart success) h = scrobbleStart success h"
| "step (ScrobblePause progress') h = scrobblePause progress' h"
| "step (ScrobbleStop progress') h = scrobbleStop progress' h"
| "step (OnPlay success) h = onPlay success h"
| "step OnPause h = onPause h"
| "step OnStop h = onStop h"
| "step ResetScrobbleState h = resetScrobbleState h"

fun run :: "Event list \<Rightarrow> UseTrakt \<Rightarrow> UseTrakt" where
  "run [] h = h"
| "run (e # es) h = run es (step e h)"

fun resets :: "Event \<Rightarrow> bool" where
  "resets OnStop = True"
| "resets ResetScrobbleState = True"
| "resets e = False"

fun reaches80 :: "Event \<Rightarrow> bool" where
  "reaches80 (UpdateProgress currentTime' duration') =
     (duration' \<noteq> 0 \<and> (currentTime' / duration') * 100 \<ge> 80)"
| "reaches80 e = False"

fun completionReports :: "Event list \<Rightarrow> UseTrakt \<Rightarrow> (ScrobbleAction \<times> ScrobbleData) list" where
  "completionReports [] h = []"
| "completionReports (UpdateProgress currentTime' duration' # es) h =
     drop (length (scrobbles h)) (scrobbles (updateProgress currentTime' duration' h))
       @ completionReports es (updateProgress currentTime' duration' h)"
| "completionReports (e # es) h = completionReports es (step e h)"

section \<open>Properties of the resolution effect\<close>

lemma firstCommunityMatch_None:
  "firstCommunityMatch p ms = None \<longleftrightarrow> (\<forall>m \<in> set ms. \<not> inActivationWindow p m)"
  by (induction ms) (auto simp: inActivationWindow_def split: SkipType.splits)

lemma firstCommunityMatch_append:
  "firstCommunityMatch p (xs @ ys) =
     (case firstCommunityMatch p xs of Some m \<Rightarrow> Some m | None \<Rightarrow> firstCommunityMatch p ys)"
  by (induction xs) auto

lemma firstCommunityMatch_Cons:
  "firstCommunityMatch p (m # ms) =
     (if inActivationWindow p m then Some m else firstCommunityMatch p ms)"
  by (auto simp: inActivationWindow_def split: SkipType.splits)

lemma firstCommunityMatch_index:
  "(\<exists>m \<in> set ms. inActivationWindow p m) \<Longrightarrow>
   \<exists>i < length ms. firstCommunityMatch p ms = Some (ms ! i) \<and> inActivationWindow p (ms ! i)
      \<and> (\<forall>j < i. \<not> inActivationWindow p (ms ! j))"
proof (induction ms)
  case Nil
  then show ?case by simp
next
  case (Cons m ms)
  show ?case
  proof (cases "inActivationWindow p m")
    case True
    then have "firstCommunityMatch p (m # ms) = Some ((m # ms) ! 0)
        \<and> inActivationWindow p ((m # ms) ! 0)
        \<and> (\<forall>j < 0. \<not> inActivationWindow p ((m # ms) ! j))"
      by (simp add: firstCommunityMatch_Cons del: firstCommunityMatch.simps)
    then show ?thesis by blast
  next
    case False
    with Cons.prems have "\<exists>x \<in> set ms. inActivationWindow p x" by auto
    from Cons.IH [OF this] obtain i where i: "i < length ms"
      "firstCommunityMatch p ms = Some (ms ! i)" "inActivationWindow p (ms ! i)"
      "\<forall>j < i. \<not> inActivationWindow p (ms ! j)" by blast
    have "\<forall>j < Suc i. \<not> inActivationWindow p ((m # ms) ! j)"
    proof (intro allI impI)
      fix j assume "j < Suc i"
      then show "\<not> inActivationWindow p ((m # ms) ! j)"
        using False i(4) by (cases j) auto
    qed
    with i False have "Suc i < length (m # ms)
        \<and> firstCommunityMatch p (m # ms) = Some ((m # ms) ! Suc i)
        \<and> inActivationWindow p ((m # ms) ! Suc i)
        \<and> (\<forall>j < Suc i. \<not> inActivationWindow p ((m # ms) ! j))"
      by (simp add: firstCommunityMatch_Cons del: firstCommunityMatch.simps)
    then show ?thesis by blast
  qed
qed

text \<open>
  C1 (priority invariant). On a tick with positive duration and community skip enabled, if
  some community marker's activation window contains the position, the effect sets the
  active marker to the first such marker in list order. This holds whatever the manual
  settings and the previous active marker are, so the manual synthetic marker is never
  chosen on such a tick; in particular, when no community marker carries the source
  \<open>Manual\<close>, neither does the active marker.
\<close>

theorem community_marker_priority:
  assumes "duration s > 0"
    and "enabledCommunitySkip (skipSettings s)"
    and "\<exists>m \<in> set (communitySkipMarkers s). inActivationWindow (currentPosition s) m"
  shows "\<exists>i < length (communitySkipMarkers s).
           inActivationWindow (currentPosition s) (communitySkipMarkers s ! i)
         \<and> (\<forall>j < i. \<not> inActivationWindow (currentPosition s) (communitySkipMarkers s ! j))
         \<and> resolveUpdate s = SetActiveSkipMarker (Some (communitySkipMarkers s ! i))
         \<and> activeSkipMarker (resolveEffect s) = Some (communitySkipMarkers s ! i)
         \<and> ((\<forall>m \<in> set (communitySkipMarkers s). source m \<noteq> Manual)
              \<longrightarrow> map_option source (activeSkipMarker (resolveEffect s)) \<noteq> Some Manual)"
proof -
  let ?ms = "communitySkipMarkers s" and ?p = "currentPosition s"
  from firstCommunityMatch_index [OF assms(3)] obtain i where i: "i < length ?ms"
    "firstCommunityMatch ?p ?ms = Some (?ms ! i)" "inActivationWindow ?p (?ms ! i)"
    "\<forall>j < i. \<not> inActivationWindow ?p (?ms ! j)" by blast
  from i(1) have ne: "length ?ms > 0" by auto
  have upd: "resolveUpdate s = SetActiveSkipMarker (Some (?ms ! i))"
    using assms(1,2) ne i(2) by (simp add: resolveUpdate_def)
  then have act: "activeSkipMarker (resolveEffect s) = Some (?ms ! i)"
    by (simp add: resolveEffect_def)
  have "(\<forall>m \<in> set ?ms. source m \<noteq> Manual)
          \<longrightarrow> map_option source (activeSkipMarker (resolveEffect s)) \<noteq> Some Manual"
    using act nth_mem [OF i(1)] by auto
  with i upd act show ?thesis by blast
qed


theorem community_marker_priority_witness:
  "duration (tick 30 1200 (mounted DEFAULT_SKIP_SETTINGS
        [\<lparr>type = Intro, startTime = 5, endTime = 95, source = Fingerprint\<rparr>,
         \<lparr>type = Intro, startTime = 0, endTime = 60, source = Fingerprint\<rparr>] 90 0)) > 0
   \<and> manualIntroSkip (mounted DEFAULT_SKIP_SETTINGS
        [\<lparr>type = Intro, startTime = 5, endTime = 95, source = Fingerprint\<rparr>,
         \<lparr>type = Intro, startTime = 0, endTime = 60, source = Fingerprint\<rparr>] 90 0) > 30
   \<and> activeSkipMarker (tick 30 1200 (mounted DEFAULT_SKIP_SETTINGS
        [\<lparr>type = Intro, startTime = 5, endTime = 95, source = Fingerprint\<rparr>,
         \<lparr>type = Intro, startTime = 0, endTime = 60, source = Fingerprint\<rparr>] 90 0))
      = Some \<lparr>type = Intro, startTime = 5, endTime = 95, source = Fingerprint\<rparr>"
  using community_marker_priority [of "(mounted DEFAULT_SKIP_SETTINGS
        [\<lparr>type = Intro, startTime = 5, endTime = 95, source = Fingerprint\<rparr>,
         \<lparr>type = Intro, startTime = 0, endTime = 60, source = Fingerprint\<rparr>] 90 0)
        \<lparr>currentPosition := 30, duration := 1200\<rparr>"]
  by (auto simp: tick_def mounted_def DEFAULT_SKIP_SETTINGS_def inActivationWindow_def
        resolveEffect_def less_Suc_eq)

lemma resolveUpdate_fallback:
  assumes "duration s \<noteq> 0"
    and "\<not> enabledCommunitySkip (skipSettings s)
         \<or> (\<forall>m \<in> set (communitySkipMarkers s). \<not> inActivationWindow (currentPosition s) m)"
  shows "resolveUpdate s = manualFallback s"
proof -
  have "(if enabledCommunitySkip (skipSettings s) \<and> length (communitySkipMarkers s) > 0
         then firstCommunityMatch (currentPosition s) (communitySkipMarkers s) else None) = None"
    using assms(2) by (auto simp: firstCommunityMatch_None)
  then show ?thesis using assms(1) by (simp add: resolveUpdate_def)
qed

lemma manualFallback_source:
  "manualFallback s = SetActiveSkipMarker (Some m) \<Longrightarrow> source m = Manual"
  by (auto simp: manualFallback_def Let_def split: if_splits)

lemma resolveUpdate_community:
  assumes "duration s \<noteq> 0" "enabledCommunitySkip (skipSettings s)"
    and "communitySkipMarkers s = pre @ m # post"
    and "\<forall>x \<in> set pre. \<not> inActivationWindow (currentPosition s) x"
  shows "resolveUpdate s =
     (if inActivationWindow (currentPosition s) m then SetActiveSkipMarker (Some m)
      else case firstCommunityMatch (currentPosition s) post of
             Some x \<Rightarrow> SetActiveSkipMarker (Some x) | None \<Rightarrow> manualFallback s)"
proof -
  have "firstCommunityMatch (currentPosition s) pre = None"
    using assms(4) by (simp add: firstCommunityMatch_None)
  then have "firstCommunityMatch (currentPosition s) (communitySkipMarkers s) =
      (if inActivationWindow (currentPosition s) m then Some m
       else firstCommunityMatch (currentPosition s) post)"
    by (simp add: assms(3) firstCommunityMatch_append firstCommunityMatch_Cons
          del: firstCommunityMatch.simps)
  then show ?thesis using assms(1,2,3) by (simp add: resolveUpdate_def)
qed

lemma firstCommunityMatch_Some_window:
  "firstCommunityMatch p ms = Some x \<Longrightarrow> inActivationWindow p x"
  by (induction ms) (auto simp: firstCommunityMatch_Cons simp del: firstCommunityMatch.simps(2) split: if_splits)

text \<open>
  What the effect sets. On a tick with non-zero duration and community skip enabled, take a
  community marker \<open>m\<close> (its source is not \<open>Manual\<close>) that no earlier marker of the list
  shadows at the current position. The effect calls \<^verbatim>\<open>setActiveSkipMarker\<close> with \<open>m\<close>
  exactly when the position is in the window of \<open>m\<close>: \<open>startTime m \<le> position < endTime m\<close>
  for an intro, \<open>startTime m - 10 \<le> position < endTime m\<close> for a credits marker.
\<close>

lemma community_marker_set_in_window:
  assumes "duration s \<noteq> 0" and "enabledCommunitySkip (skipSettings s)"
    and "communitySkipMarkers s = pre @ m # post"
    and "\<forall>x \<in> set pre. \<not> inActivationWindow (currentPosition s) x"
    and "source m \<noteq> Manual"
  shows "(type m = Intro \<longrightarrow>
            (resolveUpdate s = SetActiveSkipMarker (Some m)
               \<longleftrightarrow> startTime m \<le> currentPosition s \<and> currentPosition s < endTime m)
          \<and> (currentPosition s = endTime m
               \<longrightarrow> resolveUpdate s \<noteq> SetActiveSkipMarker (Some m)))
       \<and> (type m = Credits \<longrightarrow>
            (resolveUpdate s = SetActiveSkipMarker (Some m)
               \<longleftrightarrow> startTime m - 10 \<le> currentPosition s \<and> currentPosition s < endTime m)
          \<and> (currentPosition s = startTime m - 10 \<and> startTime m < endTime m
               \<longrightarrow> resolveUpdate s = SetActiveSkipMarker (Some m))
          \<and> (currentPosition s = startTime m - 11
               \<longrightarrow> resolveUpdate s \<noteq> SetActiveSkipMarker (Some m)))
       \<and> (resolveUpdate s = SetActiveSkipMarker (Some m)
            \<longrightarrow> activeSkipMarker (resolveEffect s) = Some m)"
proof -
  let ?p = "currentPosition s"
  have out: "resolveUpdate s \<noteq> SetActiveSkipMarker (Some m)" if "\<not> inActivationWindow ?p m"
  proof (cases "firstCommunityMatch ?p post")
    case None
    then have "resolveUpdate s = manualFallback s"
      using resolveUpdate_community [OF assms(1-4)] that by simp
    then show ?thesis using manualFallback_source [of s m] assms(5) by auto
  next
    case (Some x)
    then have "resolveUpdate s = SetActiveSkipMarker (Some x)"
      using resolveUpdate_community [OF assms(1-4)] that by simp
    moreover have "inActivationWindow ?p x"
      using Some by (rule firstCommunityMatch_Some_window)
    ultimately show ?thesis using that by auto
  qed
  have iff: "resolveUpdate s = SetActiveSkipMarker (Some m) \<longleftrightarrow> inActivationWindow ?p m"
    using out resolveUpdate_community [OF assms(1-4)] by auto
  have eff: "resolveUpdate s = SetActiveSkipMarker (Some m)
      \<longrightarrow> activeSkipMarker (resolveEffect s) = Some m"
    by (simp add: resolveEffect_def)
  have i: "type m = Intro \<Longrightarrow>
      inActivationWindow ?p m \<longleftrightarrow> startTime m \<le> ?p \<and> ?p < endTime m"
    by (simp add: inActivationWindow_def)
  have c: "type m = Credits \<Longrightarrow>
      inActivationWindow ?p m \<longleftrightarrow> startTime m - 10 \<le> ?p \<and> ?p < endTime m"
    by (simp add: inActivationWindow_def)
  show ?thesis using iff eff i c by auto
qed


text \<open>
  C2 (community activation windows). The effect sets a community marker only inside its
  window, but it does not always clear it outside. With the default settings and one
  community credits marker from 1100 to 1190 on a 1200 s video, the marker becomes active
  at position 1150; at position 1190, its \<open>endTime\<close>, the loop no longer matches it, the
  effect makes no update, and the marker is still the active one, at 1190 and at 1195.
  In the same way a community intro marker from 5 to 95 is still active at position 95
  when manual credits seconds are configured.
\<close>

theorem community_marker_stays_after_window:
  "activeSkipMarker (tick 1150 1200 (mounted DEFAULT_SKIP_SETTINGS
        [\<lparr>type = Credits, startTime = 1100, endTime = 1190, source = Fingerprint\<rparr>] 0 0))
     = Some \<lparr>type = Credits, startTime = 1100, endTime = 1190, source = Fingerprint\<rparr>
   \<and> firstCommunityMatch 1190
        [\<lparr>type = Credits, startTime = 1100, endTime = 1190, source = Fingerprint\<rparr>] = None
   \<and> resolveUpdate ((tick 1150 1200 (mounted DEFAULT_SKIP_SETTINGS
        [\<lparr>type = Credits, startTime = 1100, endTime = 1190, source = Fingerprint\<rparr>] 0 0))
        \<lparr>currentPosition := 1190, duration := 1200\<rparr>) = NoUpdate
   \<and> activeSkipMarker (tick 1190 1200 (tick 1150 1200 (mounted DEFAULT_SKIP_SETTINGS
        [\<lparr>type = Credits, startTime = 1100, endTime = 1190, source = Fingerprint\<rparr>] 0 0)))
     = Some \<lparr>type = Credits, startTime = 1100, endTime = 1190, source = Fingerprint\<rparr>
   \<and> activeSkipMarker (tick 1195 1200 (tick 1190 1200 (tick 1150 1200
        (mounted DEFAULT_SKIP_SETTINGS
        [\<lparr>type = Credits, startTime = 1100, endTime = 1190, source = Fingerprint\<rparr>] 0 0))))
     = Some \<lparr>type = Credits, startTime = 1100, endTime = 1190, source = Fingerprint\<rparr>
   \<and> activeSkipMarker (tick 30 1200 (mounted DEFAULT_SKIP_SETTINGS
        [\<lparr>type = Intro, startTime = 5, endTime = 95, source = Fingerprint\<rparr>] 0 60))
     = Some \<lparr>type = Intro, startTime = 5, endTime = 95, source = Fingerprint\<rparr>
   \<and> activeSkipMarker (tick 95 1200 (tick 30 1200 (mounted DEFAULT_SKIP_SETTINGS
        [\<lparr>type = Intro, startTime = 5, endTime = 95, source = Fingerprint\<rparr>] 0 60)))
     = Some \<lparr>type = Intro, startTime = 5, endTime = 95, source = Fingerprint\<rparr>"
  by (simp add: tick_def mounted_def DEFAULT_SKIP_SETTINGS_def resolveEffect_def
        resolveUpdate_def manualFallback_def Let_def)

lemma scenario_run:
  "activeSkipMarker (tick 0 1200 (scenario 0))
     = Some \<lparr>type = Intro, startTime = 0, endTime = 90, source = Manual\<rparr>
   \<and> activeSkipMarker (tick 90 1200 (tick 0 1200 (scenario 0))) = None
   \<and> activeSkipMarker (tick 1150 1200
        ((tick 90 1200 (tick 0 1200 (scenario 0)))\<lparr>manualCreditsSkip := 60\<rparr>))
     = Some \<lparr>type = Credits, startTime = 1140, endTime = 1200, source = Manual\<rparr>
   \<and> activeSkipMarker (tick 1196 1200 (tick 1150 1200
        ((tick 90 1200 (tick 0 1200 (scenario 0)))\<lparr>manualCreditsSkip := 60\<rparr>))) = None"
  by (simp add: scenario_def tick_def mounted_def DEFAULT_SKIP_SETTINGS_def resolveEffect_def
        resolveUpdate_def manualFallback_def Let_def)

lemma resolveEffect_active:
  "activeSkipMarker (resolveEffect s) =
     (case resolveUpdate s of SetActiveSkipMarker a \<Rightarrow> a | NoUpdate \<Rightarrow> activeSkipMarker s)"
  by (simp add: resolveEffect_def split: MarkerUpdate.splits)

lemma manualFallback_intro:
  "enabledManualSkip (skipSettings s) \<Longrightarrow> manualIntroSkip s > 0
   \<Longrightarrow> currentPosition s < manualIntroSkip s
   \<Longrightarrow> manualFallback s = SetActiveSkipMarker (Some \<lparr>type = Intro, startTime = 0,
          endTime = manualIntroSkip s, source = Manual\<rparr>)"
  by (simp add: manualFallback_def)

lemma manualFallback_credits:
  "enabledManualSkip (skipSettings s)
   \<Longrightarrow> \<not> (manualIntroSkip s > 0 \<and> currentPosition s < manualIntroSkip s)
   \<Longrightarrow> manualCreditsSkip s > 0 \<Longrightarrow> duration s > 0
   \<Longrightarrow> duration s - manualCreditsSkip s - 10 \<le> currentPosition s
   \<Longrightarrow> currentPosition s < duration s - 5
   \<Longrightarrow> manualFallback s = SetActiveSkipMarker (Some \<lparr>type = Credits,
          startTime = duration s - manualCreditsSkip s, endTime = duration s,
          source = Manual\<rparr>)"
  by (simp add: manualFallback_def Let_def)

lemma manualFallback_neither:
  "enabledManualSkip (skipSettings s)
   \<Longrightarrow> \<not> (manualIntroSkip s > 0 \<and> currentPosition s < manualIntroSkip s)
   \<Longrightarrow> \<not> (manualCreditsSkip s > 0 \<and> duration s > 0
          \<and> duration s - manualCreditsSkip s - 10 \<le> currentPosition s
          \<and> currentPosition s < duration s - 5)
   \<Longrightarrow> manualFallback s =
         (if manualCreditsSkip s > 0 \<and> duration s > 0
          then (if map_option type (activeSkipMarker s) = Some Credits
                then SetActiveSkipMarker None else NoUpdate)
          else (if map_option type (activeSkipMarker s) = Some Intro
                then SetActiveSkipMarker None else NoUpdate))"
  by (auto simp: manualFallback_def Let_def)

text \<open>
  What the manual branch sets. On a tick with positive duration where manual skip is
  enabled and the community branch selects nothing, the effect sets the synthetic intro
  marker exactly when \<open>manualIntroSkip > 0\<close> and the position is below it; otherwise it sets
  the synthetic credits marker exactly when \<open>manualCreditsSkip > 0\<close> and
  \<open>duration - manualCreditsSkip - 10 \<le> position < duration - 5\<close>; when neither holds it
  sets no marker, the active marker being cleared or left as it was. With credits seconds
  0 up to position 90 and 60 from then on, the scenario of the specification gives the
  intro marker at position 0, no marker at 90, the credits marker at 1150 and no marker at
  1196.
\<close>

lemma manual_fallback_sets:
  assumes "duration s > 0" and "enabledManualSkip (skipSettings s)"
    and "\<not> enabledCommunitySkip (skipSettings s)
         \<or> (\<forall>m \<in> set (communitySkipMarkers s). \<not> inActivationWindow (currentPosition s) m)"
  shows "((resolveUpdate s = SetActiveSkipMarker (Some \<lparr>type = Intro, startTime = 0,
              endTime = manualIntroSkip s, source = Manual\<rparr>))
          \<longleftrightarrow> manualIntroSkip s > 0 \<and> currentPosition s < manualIntroSkip s)
       \<and> ((resolveUpdate s = SetActiveSkipMarker (Some \<lparr>type = Credits,
              startTime = duration s - manualCreditsSkip s, endTime = duration s,
              source = Manual\<rparr>))
          \<longleftrightarrow> \<not> (manualIntroSkip s > 0 \<and> currentPosition s < manualIntroSkip s)
               \<and> manualCreditsSkip s > 0
               \<and> duration s - manualCreditsSkip s - 10 \<le> currentPosition s
               \<and> currentPosition s < duration s - 5)
       \<and> (manualIntroSkip s > 0 \<and> currentPosition s < manualIntroSkip s
            \<longrightarrow> activeSkipMarker (resolveEffect s) = Some \<lparr>type = Intro, startTime = 0,
                  endTime = manualIntroSkip s, source = Manual\<rparr>)
       \<and> (\<not> (manualIntroSkip s > 0 \<and> currentPosition s < manualIntroSkip s)
               \<and> manualCreditsSkip s > 0
               \<and> duration s - manualCreditsSkip s - 10 \<le> currentPosition s
               \<and> currentPosition s < duration s - 5
            \<longrightarrow> activeSkipMarker (resolveEffect s) = Some \<lparr>type = Credits,
                  startTime = duration s - manualCreditsSkip s, endTime = duration s,
                  source = Manual\<rparr>)
       \<and> (\<not> (manualIntroSkip s > 0 \<and> currentPosition s < manualIntroSkip s)
               \<and> \<not> (manualCreditsSkip s > 0
                     \<and> duration s - manualCreditsSkip s - 10 \<le> currentPosition s
                     \<and> currentPosition s < duration s - 5)
            \<longrightarrow> (resolveUpdate s = SetActiveSkipMarker None \<or> resolveUpdate s = NoUpdate)
                \<and> (activeSkipMarker (resolveEffect s) = None
                     \<or> activeSkipMarker (resolveEffect s) = activeSkipMarker s))
       \<and> activeSkipMarker (tick 0 1200 (scenario 0))
            = Some \<lparr>type = Intro, startTime = 0, endTime = 90, source = Manual\<rparr>
       \<and> activeSkipMarker (tick 90 1200 (tick 0 1200 (scenario 0))) = None
       \<and> activeSkipMarker (tick 1150 1200
            ((tick 90 1200 (tick 0 1200 (scenario 0)))\<lparr>manualCreditsSkip := 60\<rparr>))
            = Some \<lparr>type = Credits, startTime = 1140, endTime = 1200, source = Manual\<rparr>
       \<and> activeSkipMarker (tick 1196 1200 (tick 1150 1200
            ((tick 90 1200 (tick 0 1200 (scenario 0)))\<lparr>manualCreditsSkip := 60\<rparr>))) = None"
proof -
  have fb: "resolveUpdate s = manualFallback s"
    using assms(1,3) by (intro resolveUpdate_fallback) auto
  have general: "((resolveUpdate s = SetActiveSkipMarker (Some \<lparr>type = Intro, startTime = 0,
              endTime = manualIntroSkip s, source = Manual\<rparr>))
          \<longleftrightarrow> manualIntroSkip s > 0 \<and> currentPosition s < manualIntroSkip s)
       \<and> ((resolveUpdate s = SetActiveSkipMarker (Some \<lparr>type = Credits,
              startTime = duration s - manualCreditsSkip s, endTime = duration s,
              source = Manual\<rparr>))
          \<longleftrightarrow> \<not> (manualIntroSkip s > 0 \<and> currentPosition s < manualIntroSkip s)
               \<and> manualCreditsSkip s > 0
               \<and> duration s - manualCreditsSkip s - 10 \<le> currentPosition s
               \<and> currentPosition s < duration s - 5)
       \<and> (manualIntroSkip s > 0 \<and> currentPosition s < manualIntroSkip s
            \<longrightarrow> activeSkipMarker (resolveEffect s) = Some \<lparr>type = Intro, startTime = 0,
                  endTime = manualIntroSkip s, source = Manual\<rparr>)
       \<and> (\<not> (manualIntroSkip s > 0 \<and> currentPosition s < manualIntroSkip s)
               \<and> manualCreditsSkip s > 0
               \<and> duration s - manualCreditsSkip s - 10 \<le> currentPosition s
               \<and> currentPosition s < duration s - 5
            \<longrightarrow> activeSkipMarker (resolveEffect s) = Some \<lparr>type = Credits,
                  startTime = duration s - manualCreditsSkip s, endTime = duration s,
                  source = Manual\<rparr>)
       \<and> (\<not> (manualIntroSkip s > 0 \<and> currentPosition s < manualIntroSkip s)
               \<and> \<not> (manualCreditsSkip s > 0
                     \<and> duration s - manualCreditsSkip s - 10 \<le> currentPosition s
                     \<and> currentPosition s < duration s - 5)
            \<longrightarrow> (resolveUpdate s = SetActiveSkipMarker None \<or> resolveUpdate s = NoUpdate)
                \<and> (activeSkipMarker (resolveEffect s) = None
                     \<or> activeSkipMarker (resolveEffect s) = activeSkipMarker s))"
  proof -
    let ?c1 = "manualIntroSkip s > 0 \<and> currentPosition s < manualIntroSkip s"
    let ?c2 = "manualCreditsSkip s > 0
               \<and> duration s - manualCreditsSkip s - 10 \<le> currentPosition s
               \<and> currentPosition s < duration s - 5"
    consider (intro) ?c1 | (credits) "\<not> ?c1" ?c2 | (neither) "\<not> ?c1" "\<not> ?c2" by blast
    then show ?thesis
    proof cases
      case intro
      then have "resolveUpdate s = SetActiveSkipMarker (Some \<lparr>type = Intro, startTime = 0,
          endTime = manualIntroSkip s, source = Manual\<rparr>)"
        using fb assms(2) by (simp add: manualFallback_intro)
      then show ?thesis using intro by (simp add: resolveEffect_active)
    next
      case credits
      then have "resolveUpdate s = SetActiveSkipMarker (Some \<lparr>type = Credits,
          startTime = duration s - manualCreditsSkip s, endTime = duration s,
          source = Manual\<rparr>)"
        using fb assms(1,2) by (simp add: manualFallback_credits)
      then show ?thesis using credits by (simp add: resolveEffect_active)
    next
      case neither
      then have "resolveUpdate s = SetActiveSkipMarker None \<or> resolveUpdate s = NoUpdate"
        using fb manualFallback_neither [of s] assms(2) by auto
      then show ?thesis using neither by (auto simp: resolveEffect_active)
    qed
  qed
  show ?thesis using general scenario_run by simp
qed

text \<open>
  C3 (manual fallback windows). The synthetic intro marker does not stop being active when
  the position leaves its window. With manual intro 90 s and manual credits 60 s on a
  1200 s video, the marker set at position 50 is still the active marker at position 90,
  where \<open>position < manualIntroSkip\<close> no longer holds, at 1129, and at 1196 after a seek
  from 50, where the scenario of the specification has no active marker.
\<close>

theorem manual_intro_stays_after_window:
  "duration (tick 50 1200 (scenario 60)) > 0
   \<and> enabledManualSkip (skipSettings (tick 50 1200 (scenario 60)))
   \<and> \<not> enabledCommunitySkip (skipSettings (tick 50 1200 (scenario 60)))
   \<and> activeSkipMarker (tick 50 1200 (scenario 60))
       = Some \<lparr>type = Intro, startTime = 0, endTime = 90, source = Manual\<rparr>
   \<and> \<not> ((90::real) < manualIntroSkip (tick 50 1200 (scenario 60)))
   \<and> activeSkipMarker (tick 90 1200 (tick 50 1200 (scenario 60)))
       = Some \<lparr>type = Intro, startTime = 0, endTime = 90, source = Manual\<rparr>
   \<and> activeSkipMarker (tick 1129 1200 (tick 90 1200 (tick 50 1200 (scenario 60))))
       = Some \<lparr>type = Intro, startTime = 0, endTime = 90, source = Manual\<rparr>
   \<and> activeSkipMarker (tick 1196 1200 (tick 50 1200 (scenario 60)))
       = Some \<lparr>type = Intro, startTime = 0, endTime = 90, source = Manual\<rparr>"
  by (simp add: scenario_def tick_def mounted_def DEFAULT_SKIP_SETTINGS_def resolveEffect_def
        resolveUpdate_def manualFallback_def Let_def)

lemma stale_intro_cleared_without_credits:
  assumes "duration s \<noteq> 0" and "enabledManualSkip (skipSettings s)"
    and "\<not> enabledCommunitySkip (skipSettings s)
         \<or> (\<forall>m \<in> set (communitySkipMarkers s). \<not> inActivationWindow (currentPosition s) m)"
    and "\<not> (manualIntroSkip s > 0 \<and> currentPosition s < manualIntroSkip s)"
    and "\<not> (manualCreditsSkip s > 0 \<and> duration s > 0)"
    and "map_option type (activeSkipMarker s) = Some Intro"
  shows "activeSkipMarker (resolveEffect s) = None"
proof -
  have "resolveUpdate s = manualFallback s"
    using assms(1,3) by (intro resolveUpdate_fallback) auto
  moreover have "manualFallback s = SetActiveSkipMarker None"
    using manualFallback_neither [of s] assms(2,4,5,6) by auto
  ultimately show ?thesis by (simp add: resolveEffect_active)
qed

lemma stale_intro_kept_with_credits:
  assumes "duration s > 0" and "enabledManualSkip (skipSettings s)"
    and "\<not> enabledCommunitySkip (skipSettings s)
         \<or> (\<forall>m \<in> set (communitySkipMarkers s). \<not> inActivationWindow (currentPosition s) m)"
    and "\<not> (manualIntroSkip s > 0 \<and> currentPosition s < manualIntroSkip s)"
    and "manualCreditsSkip s > 0"
    and "\<not> (duration s - manualCreditsSkip s - 10 \<le> currentPosition s
            \<and> currentPosition s < duration s - 5)"
    and "map_option type (activeSkipMarker s) = Some Intro"
  shows "resolveUpdate s = NoUpdate \<and> activeSkipMarker (resolveEffect s) = activeSkipMarker s"
proof -
  have "resolveUpdate s = manualFallback s"
    using assms(1,3) by (intro resolveUpdate_fallback) auto
  moreover have "manualFallback s = NoUpdate"
    using manualFallback_neither [of s] assms(1,2,4,5,6,7) by auto
  ultimately show ?thesis by (simp add: resolveEffect_active)
qed

text \<open>
  C4 (stale-intro clearing). With manual intro 90 s and manual credits 60 s on a 1200 s
  video, the tick at position 90 meets every condition of the claim (manual skip enabled,
  no community marker matches, neither manual window holds, the previous marker is an
  intro), and the effect makes no update: the intro marker set at position 0 is still
  the active marker, at 90 and at 600.
\<close>

theorem stale_intro_persists_when_credits_configured:
  "enabledManualSkip (skipSettings (tick 0 1200 (scenario 60)))
   \<and> \<not> enabledCommunitySkip (skipSettings (tick 0 1200 (scenario 60)))
   \<and> \<not> ((90::real) < manualIntroSkip (tick 0 1200 (scenario 60)))
   \<and> \<not> (1200 - manualCreditsSkip (tick 0 1200 (scenario 60)) - 10 \<le> (90::real))
   \<and> map_option type (activeSkipMarker (tick 0 1200 (scenario 60))) = Some Intro
   \<and> resolveUpdate ((tick 0 1200 (scenario 60))\<lparr>currentPosition := 90, duration := 1200\<rparr>)
       = NoUpdate
   \<and> activeSkipMarker (tick 90 1200 (tick 0 1200 (scenario 60)))
       = Some \<lparr>type = Intro, startTime = 0, endTime = 90, source = Manual\<rparr>
   \<and> activeSkipMarker (tick 600 1200 (tick 90 1200 (tick 0 1200 (scenario 60))))
       = Some \<lparr>type = Intro, startTime = 0, endTime = 90, source = Manual\<rparr>"
  by (simp add: scenario_def tick_def mounted_def DEFAULT_SKIP_SETTINGS_def resolveEffect_def
        resolveUpdate_def manualFallback_def Let_def)

section \<open>Properties of the community skip service\<close>

lemma addStremioMarkers_prefix: "prefix A (addStremioMarkers A B)"
proof (induction B arbitrary: A)
  case Nil
  then show ?case by simp
next
  case (Cons m B)
  have "prefix A (if \<not> list_ex (\<lambda>k. type k = type m \<and> \<bar>startTime k - startTime m\<bar> < 2) A
                  then A @ [m] else A)"
    by simp
  then show ?case
    using Cons.IH prefix_order.trans by (fastforce simp: Let_def)
qed

lemma addStremioMarkers_append:
  "addStremioMarkers A (xs @ ys) = addStremioMarkers (addStremioMarkers A xs) ys"
  by (induction xs arbitrary: A) (simp_all add: Let_def)

lemma addStremioMarkers_snoc:
  "addStremioMarkers A (pre @ [m]) =
     (if (\<exists>k \<in> set (addStremioMarkers A pre).
            type k = type m \<and> \<bar>startTime k - startTime m\<bar> < 2)
      then addStremioMarkers A pre else addStremioMarkers A pre @ [m])"
  by (simp add: addStremioMarkers_append Let_def list_ex_iff)

lemma provider_resolves:
  "\<exists>ms. getIntroHaterMarkers outcome = Inr ms" "\<exists>ms. getStremioSkipMarkers outcome = Inr ms"
  by (auto simp: getIntroHaterMarkers_def getStremioSkipMarkers_def try_catch_def
        split: sum.splits)

lemma getSkipMarkersForEpisode_miss:
  assumes "cacheHit svc (cacheKey imdbId season episode) now = None"
    and "getIntroHaterMarkers introHater = Inr A" and "getStremioSkipMarkers stremio = Inr B"
  shows "getSkipMarkersForEpisode svc imdbId season episode now introHater stremio nowStored =
     (Inr (addStremioMarkers A B), [IntroHater, Stremio],
      svc\<lparr>cache := (cache svc)(cacheKey imdbId season episode \<mapsto> addStremioMarkers A B),
          lastFetchTime := (lastFetchTime svc)(cacheKey imdbId season episode \<mapsto> nowStored)\<rparr>)"
  using assms by (simp add: getSkipMarkersForEpisode_def promiseAll_def Let_def)

lemma getSkipMarkersForEpisode_hit:
  assumes "cacheHit svc (cacheKey imdbId season episode) now = Some cached"
  shows "getSkipMarkersForEpisode svc imdbId season episode now introHater stremio nowStored =
     (Inr cached, [], svc)"
  using assms by (simp add: getSkipMarkersForEpisode_def)

lemma readMarkers_object:
  "getIntroHaterMarkers (Response True (JsonObject d)) = Inr (convertToSkipMarkers d)"
  "getStremioSkipMarkers (Response True (JsonObject d)) = Inr (convertToSkipMarkers d)"
  by (simp_all add: getIntroHaterMarkers_def getStremioSkipMarkers_def try_catch_def
        readMarkers_def json_def)

lemma failed_empty:
  "failed outcome \<Longrightarrow> getIntroHaterMarkers outcome = Inr []"
  "failed outcome \<Longrightarrow> getStremioSkipMarkers outcome = Inr []"
  by (cases outcome rule: failed.cases;
      simp add: getIntroHaterMarkers_def getStremioSkipMarkers_def try_catch_def
        readMarkers_def json_def)+

lemma addStremioMarkers_convert:
  "addStremioMarkers [] (convertToSkipMarkers d) = convertToSkipMarkers d"
  by (simp add: convertToSkipMarkers_def Let_def split: option.splits prod.splits)


text \<open>
  C5 (merge and deduplication). The merged list starts with the first provider's markers in
  their order. Going through the second provider's markers in order, a marker is appended
  if and only if no marker kept so far has the same type and a start time less than
  2 seconds away, and whatever has been kept stays at the front of the result. A call that
  finds no fresh cache entry returns this merge of the two providers' lists. Two intro
  markers starting 1.5 s apart give the first provider's marker alone; 2.5 s apart, both.
\<close>

theorem merge_deduplication:
  "prefix introHaterMarkers (addStremioMarkers introHaterMarkers stremioMarkers)
   \<and> (\<forall>pre m post. stremioMarkers = pre @ m # post \<longrightarrow>
         addStremioMarkers introHaterMarkers (pre @ [m]) =
           (if (\<exists>k \<in> set (addStremioMarkers introHaterMarkers pre).
                  type k = type m \<and> \<bar>startTime k - startTime m\<bar> < 2)
            then addStremioMarkers introHaterMarkers pre
            else addStremioMarkers introHaterMarkers pre @ [m])
       \<and> prefix (addStremioMarkers introHaterMarkers (pre @ [m]))
            (addStremioMarkers introHaterMarkers stremioMarkers))
   \<and> (cacheHit svc (cacheKey imdbId season episode) now = None
       \<and> getIntroHaterMarkers introHater = Inr introHaterMarkers
       \<and> getStremioSkipMarkers stremio = Inr stremioMarkers
       \<longrightarrow> fst (getSkipMarkersForEpisode svc imdbId season episode now introHater stremio
                 nowStored)
            = Inr (addStremioMarkers introHaterMarkers stremioMarkers))
   \<and> addStremioMarkers
        [\<lparr>type = Intro, startTime = 10, endTime = 95, source = Fingerprint\<rparr>]
        [\<lparr>type = Intro, startTime = 11.5, endTime = 96, source = Fingerprint\<rparr>]
      = [\<lparr>type = Intro, startTime = 10, endTime = 95, source = Fingerprint\<rparr>]
   \<and> addStremioMarkers
        [\<lparr>type = Intro, startTime = 10, endTime = 95, source = Fingerprint\<rparr>]
        [\<lparr>type = Intro, startTime = 12.5, endTime = 96, source = Fingerprint\<rparr>]
      = [\<lparr>type = Intro, startTime = 10, endTime = 95, source = Fingerprint\<rparr>,
         \<lparr>type = Intro, startTime = 12.5, endTime = 96, source = Fingerprint\<rparr>]"
proof -
  have kept: "prefix (addStremioMarkers introHaterMarkers (pre @ [m]))
      (addStremioMarkers introHaterMarkers stremioMarkers)"
    if "stremioMarkers = pre @ m # post" for pre m post
  proof -
    have "addStremioMarkers introHaterMarkers stremioMarkers =
        addStremioMarkers (addStremioMarkers introHaterMarkers (pre @ [m])) post"
      using that addStremioMarkers_append [of introHaterMarkers "pre @ [m]" post] by simp
    then show ?thesis by (simp add: addStremioMarkers_prefix)
  qed
  have call: "cacheHit svc (cacheKey imdbId season episode) now = None
       \<and> getIntroHaterMarkers introHater = Inr introHaterMarkers
       \<and> getStremioSkipMarkers stremio = Inr stremioMarkers
       \<longrightarrow> fst (getSkipMarkersForEpisode svc imdbId season episode now introHater stremio
                 nowStored)
            = Inr (addStremioMarkers introHaterMarkers stremioMarkers)"
    by (simp add: getSkipMarkersForEpisode_miss)
  have near: "addStremioMarkers
        [\<lparr>type = Intro, startTime = 10, endTime = 95, source = Fingerprint\<rparr>]
        [\<lparr>type = Intro, startTime = 11.5, endTime = 96, source = Fingerprint\<rparr>]
      = [\<lparr>type = Intro, startTime = 10, endTime = 95, source = Fingerprint\<rparr>]"
    by simp
  have far: "addStremioMarkers
        [\<lparr>type = Intro, startTime = 10, endTime = 95, source = Fingerprint\<rparr>]
        [\<lparr>type = Intro, startTime = 12.5, endTime = 96, source = Fingerprint\<rparr>]
      = [\<lparr>type = Intro, startTime = 10, endTime = 95, source = Fingerprint\<rparr>,
         \<lparr>type = Intro, startTime = 12.5, endTime = 96, source = Fingerprint\<rparr>]"
    by simp
  show ?thesis
    using addStremioMarkers_prefix [of introHaterMarkers stremioMarkers]
      addStremioMarkers_snoc [of introHaterMarkers] kept call near far
    by blast
qed

theorem merge_deduplication_witness:
  "cacheHit communitySkipService (cacheKey ''tt0903747'' 1 1) 1700000000000 = None
   \<and> fst (getSkipMarkersForEpisode communitySkipService ''tt0903747'' 1 1 1700000000000
        (Response True (JsonObject
           \<lparr>intro = Some \<lparr>start = Some 10, end' = Some 95\<rparr>, outro = None\<rparr>))
        (Response True (JsonObject
           \<lparr>intro = Some \<lparr>start = Some 11.5, end' = Some 96\<rparr>,
            outro = Some \<lparr>start = Some 1300, end' = Some 1380\<rparr>\<rparr>))
        1700000000400)
      = Inr [\<lparr>type = Intro, startTime = 10, endTime = 95, source = Fingerprint\<rparr>,
             \<lparr>type = Credits, startTime = 1300, endTime = 1380, source = Fingerprint\<rparr>]"
  using merge_deduplication [of
      "[\<lparr>type = Intro, startTime = 10, endTime = 95, source = Fingerprint\<rparr>]"
      "[\<lparr>type = Intro, startTime = 11.5, endTime = 96, source = Fingerprint\<rparr>,
        \<lparr>type = Credits, startTime = 1300, endTime = 1380, source = Fingerprint\<rparr>]"
      communitySkipService "''tt0903747''" 1 1 1700000000000
      "Response True (JsonObject
           \<lparr>intro = Some \<lparr>start = Some 10, end' = Some 95\<rparr>, outro = None\<rparr>)"
      "Response True (JsonObject
           \<lparr>intro = Some \<lparr>start = Some 11.5, end' = Some 96\<rparr>,
            outro = Some \<lparr>start = Some 1300, end' = Some 1380\<rparr>\<rparr>)"
      1700000000400]
  by (simp add: readMarkers_object convertToSkipMarkers_def cacheHit_def
        communitySkipService_def)


lemma cacheHit_Some:
  "cache svc key = Some cached \<Longrightarrow> lastFetchTime svc key = Some fetchedAt
   \<Longrightarrow> cacheHit svc key now =
        (if fetchedAt \<noteq> 0 \<and> now - fetchedAt < cacheTTL then Some cached else None)"
  by (simp add: cacheHit_def)

lemma timestamps_nonzero_kept:
  assumes "\<forall>k. lastFetchTime svc k \<noteq> Some 0" and "nowStored \<noteq> 0"
  shows "\<forall>k. lastFetchTime (snd (snd (getSkipMarkersForEpisode svc imdbId season episode now
            introHater stremio nowStored))) k \<noteq> Some 0"
  using assms
  by (auto simp: getSkipMarkersForEpisode_def Let_def split: option.splits sum.splits)

lemma timestamps_nonzero_initially:
  "\<forall>k. lastFetchTime communitySkipService k \<noteq> Some 0"
  "\<forall>k. lastFetchTime (clearCache svc) k \<noteq> Some 0"
  by (simp_all add: communitySkipService_def clearCache_def)

text \<open>
  C6 (cache TTL). Take an episode key with a cached list and a fetch timestamp (a clock
  reading, so not 0). While \<open>now - fetchedAt\<close> is below 24 hours the call returns the
  cached list, issues no provider request and leaves the service as it is; this holds one
  millisecond before the 24 hours are over. Once \<open>now - fetchedAt\<close> has reached 24 hours,
  the call issues both provider requests and returns their merge, which it stores under the
  key, empty or not, together with the current clock reading, every other key being left
  alone; this holds one millisecond after the 24 hours.
\<close>

theorem cache_ttl:
  assumes "cache svc (cacheKey imdbId season episode) = Some cached"
    and "lastFetchTime svc (cacheKey imdbId season episode) = Some fetchedAt"
    and "fetchedAt \<noteq> 0"
  shows "(now - fetchedAt < 24 * 60 * 60 * 1000 \<longrightarrow>
            getSkipMarkersForEpisode svc imdbId season episode now introHater stremio nowStored
              = (Inr cached, [], svc))
       \<and> (now - fetchedAt \<ge> 24 * 60 * 60 * 1000 \<longrightarrow>
            (\<exists>A B svc'. getIntroHaterMarkers introHater = Inr A
               \<and> getStremioSkipMarkers stremio = Inr B
               \<and> getSkipMarkersForEpisode svc imdbId season episode now introHater stremio
                    nowStored
                  = (Inr (addStremioMarkers A B), [IntroHater, Stremio], svc')
               \<and> cache svc' (cacheKey imdbId season episode) = Some (addStremioMarkers A B)
               \<and> lastFetchTime svc' (cacheKey imdbId season episode) = Some nowStored
               \<and> (\<forall>k. k \<noteq> cacheKey imdbId season episode \<longrightarrow>
                     cache svc' k = cache svc k \<and> lastFetchTime svc' k = lastFetchTime svc k)))
       \<and> getSkipMarkersForEpisode svc imdbId season episode
            (fetchedAt + 24 * 60 * 60 * 1000 - 1) introHater stremio nowStored
              = (Inr cached, [], svc)
       \<and> fst (snd (getSkipMarkersForEpisode svc imdbId season episode
            (fetchedAt + 24 * 60 * 60 * 1000 + 1) introHater stremio nowStored))
              = [IntroHater, Stremio]"
proof -
  let ?key = "cacheKey imdbId season episode"
  have hit: "cacheHit svc ?key t =
      (if t - fetchedAt < 24 * 60 * 60 * 1000 then Some cached else None)" for t
    using assms by (simp add: cacheHit_Some cacheTTL_def)
  obtain A B where AB: "getIntroHaterMarkers introHater = Inr A"
      "getStremioSkipMarkers stremio = Inr B"
    using provider_resolves by blast
  have fresh: "getSkipMarkersForEpisode svc imdbId season episode t introHater stremio nowStored
      = (Inr cached, [], svc)" if "t - fetchedAt < 24 * 60 * 60 * 1000" for t
    using that hit [of t] by (simp add: getSkipMarkersForEpisode_hit)
  have stale: "getSkipMarkersForEpisode svc imdbId season episode t introHater stremio nowStored
      = (Inr (addStremioMarkers A B), [IntroHater, Stremio],
         svc\<lparr>cache := (cache svc)(?key \<mapsto> addStremioMarkers A B),
             lastFetchTime := (lastFetchTime svc)(?key \<mapsto> nowStored)\<rparr>)"
    if "t - fetchedAt \<ge> 24 * 60 * 60 * 1000" for t
    using that hit [of t] AB by (simp add: getSkipMarkersForEpisode_miss)
  have 1: "now - fetchedAt < 24 * 60 * 60 * 1000 \<longrightarrow>
      getSkipMarkersForEpisode svc imdbId season episode now introHater stremio nowStored
        = (Inr cached, [], svc)"
    using fresh by blast
  have 2: "now - fetchedAt \<ge> 24 * 60 * 60 * 1000 \<longrightarrow>
      (\<exists>A B svc'. getIntroHaterMarkers introHater = Inr A
         \<and> getStremioSkipMarkers stremio = Inr B
         \<and> getSkipMarkersForEpisode svc imdbId season episode now introHater stremio nowStored
            = (Inr (addStremioMarkers A B), [IntroHater, Stremio], svc')
         \<and> cache svc' ?key = Some (addStremioMarkers A B)
         \<and> lastFetchTime svc' ?key = Some nowStored
         \<and> (\<forall>k. k \<noteq> ?key \<longrightarrow>
               cache svc' k = cache svc k \<and> lastFetchTime svc' k = lastFetchTime svc k))"
  proof
    assume old: "now - fetchedAt \<ge> 24 * 60 * 60 * 1000"
    let ?svc' = "svc\<lparr>cache := (cache svc)(?key \<mapsto> addStremioMarkers A B),
             lastFetchTime := (lastFetchTime svc)(?key \<mapsto> nowStored)\<rparr>"
    have "getIntroHaterMarkers introHater = Inr A
         \<and> getStremioSkipMarkers stremio = Inr B
         \<and> getSkipMarkersForEpisode svc imdbId season episode now introHater stremio nowStored
            = (Inr (addStremioMarkers A B), [IntroHater, Stremio], ?svc')
         \<and> cache ?svc' ?key = Some (addStremioMarkers A B)
         \<and> lastFetchTime ?svc' ?key = Some nowStored
         \<and> (\<forall>k. k \<noteq> ?key \<longrightarrow>
               cache ?svc' k = cache svc k \<and> lastFetchTime ?svc' k = lastFetchTime svc k)"
      using AB stale [OF old] by simp
    then show "\<exists>A B svc'. getIntroHaterMarkers introHater = Inr A
         \<and> getStremioSkipMarkers stremio = Inr B
         \<and> getSkipMarkersForEpisode svc imdbId season episode now introHater stremio nowStored
            = (Inr (addStremioMarkers A B), [IntroHater, Stremio], svc')
         \<and> cache svc' ?key = Some (addStremioMarkers A B)
         \<and> lastFetchTime svc' ?key = Some nowStored
         \<and> (\<forall>k. k \<noteq> ?key \<longrightarrow>
               cache svc' k = cache svc k \<and> lastFetchTime svc' k = lastFetchTime svc k)"
      by blast
  qed
  have 3: "getSkipMarkersForEpisode svc imdbId season episode
      (fetchedAt + 24 * 60 * 60 * 1000 - 1) introHater stremio nowStored = (Inr cached, [], svc)"
    by (rule fresh) simp
  have 4: "fst (snd (getSkipMarkersForEpisode svc imdbId season episode
      (fetchedAt + 24 * 60 * 60 * 1000 + 1) introHater stremio nowStored))
        = [IntroHater, Stremio]"
    by (subst stale) simp_all
  show ?thesis using 1 2 3 4 by blast
qed

theorem cache_ttl_witness:
  "getSkipMarkersForEpisode
     \<lparr>cache = [cacheKey ''tt0903747'' 1 1 \<mapsto>
                 [\<lparr>type = Intro, startTime = 10, endTime = 95, source = Fingerprint\<rparr>]],
      lastFetchTime = [cacheKey ''tt0903747'' 1 1 \<mapsto> 1700000000000]\<rparr>
     ''tt0903747'' 1 1 1700086399999 FetchRejected FetchRejected 1700086400000
   = (Inr [\<lparr>type = Intro, startTime = 10, endTime = 95, source = Fingerprint\<rparr>], [],
      \<lparr>cache = [cacheKey ''tt0903747'' 1 1 \<mapsto>
                 [\<lparr>type = Intro, startTime = 10, endTime = 95, source = Fingerprint\<rparr>]],
       lastFetchTime = [cacheKey ''tt0903747'' 1 1 \<mapsto> 1700000000000]\<rparr>)
   \<and> fst (snd (getSkipMarkersForEpisode
     \<lparr>cache = [cacheKey ''tt0903747'' 1 1 \<mapsto>
                 [\<lparr>type = Intro, startTime = 10, endTime = 95, source = Fingerprint\<rparr>]],
      lastFetchTime = [cacheKey ''tt0903747'' 1 1 \<mapsto> 1700000000000]\<rparr>
     ''tt0903747'' 1 1 1700086400000 FetchRejected FetchRejected 1700086400000))
   = [IntroHater, Stremio]"
  using cache_ttl [of
     "\<lparr>cache = [cacheKey ''tt0903747'' 1 1 \<mapsto>
                 [\<lparr>type = Intro, startTime = 10, endTime = 95, source = Fingerprint\<rparr>]],
      lastFetchTime = [cacheKey ''tt0903747'' 1 1 \<mapsto> 1700000000000]\<rparr>"
     "''tt0903747''" 1 1
     "[\<lparr>type = Intro, startTime = 10, endTime = 95, source = Fingerprint\<rparr>]"
     1700000000000 1700086399999 FetchRejected FetchRejected 1700086400000]
    cache_ttl [of
     "\<lparr>cache = [cacheKey ''tt0903747'' 1 1 \<mapsto>
                 [\<lparr>type = Intro, startTime = 10, endTime = 95, source = Fingerprint\<rparr>]],
      lastFetchTime = [cacheKey ''tt0903747'' 1 1 \<mapsto> 1700000000000]\<rparr>"
     "''tt0903747''" 1 1
     "[\<lparr>type = Intro, startTime = 10, endTime = 95, source = Fingerprint\<rparr>]"
     1700000000000 1700086400000 FetchRejected FetchRejected 1700086400000]
  by auto


lemma not_failed:
  "\<not> failed outcome \<Longrightarrow> \<exists>data. outcome = Response True (JsonObject data)"
  by (cases outcome rule: failed.cases) auto

lemma getSkipMarkersForEpisode_resolves:
  "\<exists>ms. fst (getSkipMarkersForEpisode svc imdbId season episode now introHater stremio
      nowStored) = Inr ms"
  by (simp add: getSkipMarkersForEpisode_def Let_def split: option.splits sum.splits prod.splits)

text \<open>
  C7 (error containment). Whatever the two provider requests do, the promise returned by
  \<^verbatim>\<open>getSkipMarkersForEpisode\<close> resolves with a list, and so does each provider method. A
  failed request (rejected, status not 2xx, body that does not parse or is not an object)
  contributes the empty list. On a call that finds no fresh cache entry, a failure of one
  provider leaves the other provider's markers as the result, and a failure of both gives
  the empty list.
\<close>

theorem provider_errors_contained:
  "(\<exists>ms. fst (getSkipMarkersForEpisode svc imdbId season episode now introHater stremio
        nowStored) = Inr ms)
   \<and> (\<exists>ms. getIntroHaterMarkers introHater = Inr ms)
   \<and> (\<exists>ms. getStremioSkipMarkers stremio = Inr ms)
   \<and> (failed introHater \<longrightarrow> getIntroHaterMarkers introHater = Inr [])
   \<and> (failed stremio \<longrightarrow> getStremioSkipMarkers stremio = Inr [])
   \<and> (cacheHit svc (cacheKey imdbId season episode) now = None \<longrightarrow>
        (failed introHater \<and> \<not> failed stremio \<longrightarrow>
           fst (getSkipMarkersForEpisode svc imdbId season episode now introHater stremio
             nowStored) = getStremioSkipMarkers stremio)
      \<and> (\<not> failed introHater \<and> failed stremio \<longrightarrow>
           fst (getSkipMarkersForEpisode svc imdbId season episode now introHater stremio
             nowStored) = getIntroHaterMarkers introHater)
      \<and> (failed introHater \<and> failed stremio \<longrightarrow>
           fst (getSkipMarkersForEpisode svc imdbId season episode now introHater stremio
             nowStored) = Inr []))"
proof -
  let ?call = "getSkipMarkersForEpisode svc imdbId season episode now introHater stremio
      nowStored"
  have first_fails: "fst ?call = getStremioSkipMarkers stremio"
    if "cacheHit svc (cacheKey imdbId season episode) now = None"
      "failed introHater" "\<not> failed stremio"
  proof -
    from that(3) obtain data where "stremio = Response True (JsonObject data)"
      using not_failed by blast
    then have "getStremioSkipMarkers stremio = Inr (convertToSkipMarkers data)"
      by (simp add: readMarkers_object)
    then show ?thesis
      using that(1,2) by (simp add: getSkipMarkersForEpisode_miss failed_empty
            addStremioMarkers_convert)
  qed
  have second_fails: "fst ?call = getIntroHaterMarkers introHater"
    if "cacheHit svc (cacheKey imdbId season episode) now = None"
      "\<not> failed introHater" "failed stremio"
  proof -
    obtain A where "getIntroHaterMarkers introHater = Inr A"
      using provider_resolves by blast
    then show ?thesis
      using that(1,3) by (simp add: getSkipMarkersForEpisode_miss failed_empty)
  qed
  have both_fail: "fst ?call = Inr []"
    if "cacheHit svc (cacheKey imdbId season episode) now = None"
      "failed introHater" "failed stremio"
    using that by (simp add: getSkipMarkersForEpisode_miss failed_empty)
  show ?thesis
    using getSkipMarkersForEpisode_resolves [of svc imdbId season episode now introHater
        stremio nowStored]
      provider_resolves [of introHater] provider_resolves [of stremio]
      failed_empty [of introHater] failed_empty [of stremio]
      first_fails second_fails both_fail
    by blast
qed

theorem provider_errors_contained_witness:
  "failed FetchRejected \<and> failed (Response True MalformedJson)
   \<and> \<not> failed (Response True (JsonObject
          \<lparr>intro = Some \<lparr>start = Some 10, end' = Some 95\<rparr>, outro = None\<rparr>))
   \<and> cacheHit communitySkipService (cacheKey ''tt0903747'' 1 1) 1700000000000 = None
   \<and> fst (getSkipMarkersForEpisode communitySkipService ''tt0903747'' 1 1 1700000000000
        FetchRejected
        (Response True (JsonObject
          \<lparr>intro = Some \<lparr>start = Some 10, end' = Some 95\<rparr>, outro = None\<rparr>))
        1700000000400)
      = Inr [\<lparr>type = Intro, startTime = 10, endTime = 95, source = Fingerprint\<rparr>]
   \<and> fst (getSkipMarkersForEpisode communitySkipService ''tt0903747'' 1 1 1700000000000
        FetchRejected (Response True MalformedJson) 1700000000400)
      = Inr []"
  using provider_errors_contained [of communitySkipService "''tt0903747''" 1 1 1700000000000
        FetchRejected
        "Response True (JsonObject
          \<lparr>intro = Some \<lparr>start = Some 10, end' = Some 95\<rparr>, outro = None\<rparr>)"
        1700000000400]
    provider_errors_contained [of communitySkipService "''tt0903747''" 1 1 1700000000000
        FetchRejected "Response True MalformedJson" 1700000000400]
  by (simp add: readMarkers_object convertToSkipMarkers_def cacheHit_def
        communitySkipService_def)

section \<open>Properties of the auto-skip countdown and of the skip\<close>

lemmas run_defs = afterFirings_def mount_def mounted_def DEFAULT_SKIP_SETTINGS_def
  simulate.simps advance_def rerender.simps stable_def resolveDeps_def autoSkipDeps_def
  commitEffects_def resolveUpdate_def manualFallback_def markerObject_def autoSkipEffect_def
  autoSkipTick_def handleSkip_def autoSkipCleanup_def pollCallback_def elapse_def
  observe_def Let_def

text \<open>
  C8 (auto-skip countdown). Auto-skip enabled, manual intro 90 s, no community markers, a
  1200 s video playing from its start. The first sample (at 500 ms) makes the synthetic
  intro marker active and the countdown shows 3. Every later sample moves the position, so
  the resolution effect creates a new marker object, the auto-skip effect is cleaned up and
  run again, and the countdown is back at 3 with a new interval: after 1, 2, 8 and 20
  timer firings (10 s of playback) the countdown shows 3, the marker is active and the
  player has never been moved; the skip has not happened.

  With a community intro marker from 0 to 95, whose object stays the same, the third tick
  (at 3500 ms) moves the player to 95; but the resolution effect runs again on the position
  sampled before the skip and sets the marker again, so right after the skip the marker is
  active and the countdown shows 3. When manual credits seconds are configured the marker
  is not cleared by the next sample either: the countdown runs a second time, and at
  6500 ms the player, by then at 98, is moved to 95 again.
\<close>

theorem auto_skip_countdown_restarts:
  "observe (afterFirings 1 (mount (DEFAULT_SKIP_SETTINGS\<lparr>autoSkipEnabled := True\<rparr>) [] 90 0 1200))
     = Some (500, 1 / 2,
         Some \<lparr>type = Intro, startTime = 0, endTime = 90, source = Manual\<rparr>, Some 3, True)
   \<and> observe (afterFirings 2 (mount (DEFAULT_SKIP_SETTINGS\<lparr>autoSkipEnabled := True\<rparr>) [] 90 0 1200))
     = Some (1000, 1,
         Some \<lparr>type = Intro, startTime = 0, endTime = 90, source = Manual\<rparr>, Some 3, True)
   \<and> observe (afterFirings 8 (mount (DEFAULT_SKIP_SETTINGS\<lparr>autoSkipEnabled := True\<rparr>) [] 90 0 1200))
     = Some (4000, 4,
         Some \<lparr>type = Intro, startTime = 0, endTime = 90, source = Manual\<rparr>, Some 3, True)
   \<and> observe (afterFirings 20 (mount (DEFAULT_SKIP_SETTINGS\<lparr>autoSkipEnabled := True\<rparr>) [] 90 0 1200))
     = Some (10000, 10,
         Some \<lparr>type = Intro, startTime = 0, endTime = 90, source = Manual\<rparr>, Some 3, True)
   \<and> observe (afterFirings 9 (mount (DEFAULT_SKIP_SETTINGS\<lparr>autoSkipEnabled := True\<rparr>)
        [\<lparr>type = Intro, startTime = 0, endTime = 95, source = Fingerprint\<rparr>] 0 0 1200))
     = Some (3500, 7 / 2,
         Some \<lparr>type = Intro, startTime = 0, endTime = 95, source = Fingerprint\<rparr>, Some 1, True)
   \<and> observe (afterFirings 10 (mount (DEFAULT_SKIP_SETTINGS\<lparr>autoSkipEnabled := True\<rparr>)
        [\<lparr>type = Intro, startTime = 0, endTime = 95, source = Fingerprint\<rparr>] 0 0 1200))
     = Some (3500, 95,
         Some \<lparr>type = Intro, startTime = 0, endTime = 95, source = Fingerprint\<rparr>, Some 3, True)
   \<and> observe (afterFirings 10 (mount (DEFAULT_SKIP_SETTINGS\<lparr>autoSkipEnabled := True\<rparr>)
        [\<lparr>type = Intro, startTime = 0, endTime = 95, source = Fingerprint\<rparr>] 0 60 1200))
     = Some (3500, 95,
         Some \<lparr>type = Intro, startTime = 0, endTime = 95, source = Fingerprint\<rparr>, Some 3, True)
   \<and> observe (afterFirings 18 (mount (DEFAULT_SKIP_SETTINGS\<lparr>autoSkipEnabled := True\<rparr>)
        [\<lparr>type = Intro, startTime = 0, endTime = 95, source = Fingerprint\<rparr>] 0 60 1200))
     = Some (6500, 98,
         Some \<lparr>type = Intro, startTime = 0, endTime = 95, source = Fingerprint\<rparr>, Some 1, True)
   \<and> observe (afterFirings 19 (mount (DEFAULT_SKIP_SETTINGS\<lparr>autoSkipEnabled := True\<rparr>)
        [\<lparr>type = Intro, startTime = 0, endTime = 95, source = Fingerprint\<rparr>] 0 60 1200))
     = Some (6500, 95, None, None, False)"
  by (simp add: run_defs)

text \<open>
  C10 (frame of the skip). With an active marker \<open>m\<close>, \<^verbatim>\<open>handleSkip\<close> sets the player's
  \<^verbatim>\<open>currentTime\<close> to \<open>endTime m\<close> and the active marker to null, and nothing else: playback
  rate, play state, community markers, manual seconds and skip settings are as before.
  Without an active marker it changes nothing. The interval callback that fires the skip
  leaves the same parts alone.
\<close>

theorem handleSkip_frame:
  "(activeSkipMarker s = Some m \<longrightarrow>
      handleSkip s = s\<lparr>player := (player s)\<lparr>currentTime := endTime m\<rparr>,
                       activeSkipMarker := None\<rparr>
    \<and> currentTime (player (handleSkip s)) = endTime m
    \<and> activeSkipMarker (handleSkip s) = None)
   \<and> (activeSkipMarker s = None \<longrightarrow> handleSkip s = s)
   \<and> playbackRate (player (handleSkip s)) = playbackRate (player s)
   \<and> playing (player (handleSkip s)) = playing (player s)
   \<and> playerDuration (player (handleSkip s)) = playerDuration (player s)
   \<and> communitySkipMarkers (handleSkip s) = communitySkipMarkers s
   \<and> manualIntroSkip (handleSkip s) = manualIntroSkip s
   \<and> manualCreditsSkip (handleSkip s) = manualCreditsSkip s
   \<and> skipSettings (handleSkip s) = skipSettings s
   \<and> playbackRate (player (autoSkipTick s)) = playbackRate (player s)
   \<and> playing (player (autoSkipTick s)) = playing (player s)
   \<and> communitySkipMarkers (autoSkipTick s) = communitySkipMarkers s
   \<and> manualIntroSkip (autoSkipTick s) = manualIntroSkip s
   \<and> manualCreditsSkip (autoSkipTick s) = manualCreditsSkip s
   \<and> skipSettings (autoSkipTick s) = skipSettings s"
  by (cases "activeSkipMarker s") (simp_all add: handleSkip_def autoSkipTick_def Let_def)

theorem handleSkip_frame_witness:
  "handleSkip ((mounted DEFAULT_SKIP_SETTINGS [] 90 0)
       \<lparr>activeSkipMarker := Some \<lparr>type = Intro, startTime = 0, endTime = 90, source = Manual\<rparr>\<rparr>)
     = (mounted DEFAULT_SKIP_SETTINGS [] 90 0)
       \<lparr>player := \<lparr>currentTime = 90, playerDuration = 0, playbackRate = 1, playing = True\<rparr>\<rparr>
   \<and> handleSkip (mounted DEFAULT_SKIP_SETTINGS [] 90 0) = mounted DEFAULT_SKIP_SETTINGS [] 90 0"
  using handleSkip_frame [of "(mounted DEFAULT_SKIP_SETTINGS [] 90 0)
       \<lparr>activeSkipMarker := Some \<lparr>type = Intro, startTime = 0, endTime = 90, source = Manual\<rparr>\<rparr>"
      "\<lparr>type = Intro, startTime = 0, endTime = 90, source = Manual\<rparr>"]
    handleSkip_frame [of "mounted DEFAULT_SKIP_SETTINGS [] 90 0"]
  by (simp add: mounted_def)

section \<open>Properties of the scrobble hook\<close>

lemma step_token: "accessToken (step e h) = accessToken h \<and> options (step e h) = options h"
  by (cases e)
    (simp_all add: updateProgress_def scrobbleStart_def scrobblePause_def scrobbleStop_def
      onPlay_def onPause_def onStop_def resetScrobbleState_def Let_def)

lemma run_token: "accessToken (run es h) = accessToken h \<and> options (run es h) = options h"
  by (induction es arbitrary: h) (simp_all add: step_token)

lemma step_keeps_flag: "hasScrobbled80 h \<Longrightarrow> \<not> resets e \<Longrightarrow> hasScrobbled80 (step e h)"
  by (cases e)
    (simp_all add: updateProgress_def scrobbleStart_def scrobblePause_def scrobbleStop_def
      onPlay_def onPause_def Let_def)

lemma step_keeps_unset:
  "\<not> hasScrobbled80 h \<Longrightarrow> \<not> reaches80 e \<Longrightarrow> \<not> hasScrobbled80 (step e h)"
  by (cases e)
    (auto simp: updateProgress_def scrobbleStart_def scrobblePause_def scrobbleStop_def
      onPlay_def onPause_def onStop_def resetScrobbleState_def Let_def)

lemma updateProgress_silent:
  "hasScrobbled80 h \<or> \<not> (duration' \<noteq> 0 \<and> (currentTime' / duration') * 100 \<ge> 80)
   \<Longrightarrow> scrobbles (updateProgress currentTime' duration' h) = scrobbles h"
  by (auto simp: updateProgress_def Let_def)

lemma updateProgress_reports:
  assumes "truthy (accessToken h)" and "\<not> hasScrobbled80 h"
    and "duration' \<noteq> 0" and "(currentTime' / duration') * 100 \<ge> 80"
  shows "updateProgress currentTime' duration' h =
     h\<lparr>lastProgress := (currentTime' / duration') * 100, hasScrobbled80 := True,
       scrobbles := scrobbles h
         @ [(Stop, scrobbleData (options h) ((currentTime' / duration') * 100))]\<rparr>"
  using assms by (simp add: updateProgress_def Let_def)

lemma no_reports_after:
  "hasScrobbled80 h \<Longrightarrow> \<forall>e \<in> set es. \<not> resets e
   \<Longrightarrow> completionReports es h = [] \<and> hasScrobbled80 (run es h)"
proof (induction es arbitrary: h)
  case Nil
  then show ?case by simp
next
  case (Cons e es)
  from Cons.prems have flag: "hasScrobbled80 (step e h)" and rest: "\<forall>x \<in> set es. \<not> resets x"
    by (simp_all add: step_keeps_flag)
  from Cons.IH [OF flag rest] show ?case
    using Cons.prems(1) by (cases e) (simp_all add: updateProgress_silent)
qed

lemma no_reports_before:
  "\<not> hasScrobbled80 h \<Longrightarrow> \<forall>e \<in> set es. \<not> reaches80 e
   \<Longrightarrow> completionReports es h = [] \<and> \<not> hasScrobbled80 (run es h)"
proof (induction es arbitrary: h)
  case Nil
  then show ?case by simp
next
  case (Cons e es)
  from Cons.prems have flag: "\<not> hasScrobbled80 (step e h)"
    and rest: "\<forall>x \<in> set es. \<not> reaches80 x"
    by (simp_all add: step_keeps_unset)
  from Cons.IH [OF flag rest] show ?case
    using Cons.prems(2) by (cases e) (simp_all add: updateProgress_silent)
qed

lemma completionReports_append:
  "completionReports (xs @ ys) h = completionReports xs h @ completionReports ys (run xs h)"
proof (induction xs arbitrary: h)
  case Nil
  then show ?case by simp
next
  case (Cons e xs)
  then show ?case by (cases e) simp_all
qed

lemma scrobbleData_progress: "progress (scrobbleData opts p) = min 100 (max 0 p)"
  by (cases opts) (simp add: createScrobbleData_def split: option.splits)

text \<open>
  C9 (one-shot completion report), as amended. In a session of a hook with an access
  token that has not yet reported completion, the first progress update with a non-zero
  duration whose progress \<open>currentTime / duration * 100\<close> is at least 80 makes the only
  completion report of the session: one \<^verbatim>\<open>stop\<close> call whose payload carries that progress
  capped at 100. It sets the completion flag, and the flag stays set: no later progress
  update and no later start, pause or stop call of the session adds a completion report,
  as long as the state is not reset.
\<close>

theorem completion_report_once:
  assumes "truthy (accessToken h)" and "\<not> hasScrobbled80 h"
    and "\<forall>e \<in> set pre. \<not> reaches80 e"
    and "duration' \<noteq> 0" and "(currentTime' / duration') * 100 \<ge> 80"
    and "\<forall>e \<in> set post. \<not> resets e"
  shows "completionReports (pre @ UpdateProgress currentTime' duration' # post) h =
           [(Stop, scrobbleData (options h) ((currentTime' / duration') * 100))]
       \<and> progress (scrobbleData (options h) ((currentTime' / duration') * 100)) =
           min 100 ((currentTime' / duration') * 100)
       \<and> hasScrobbled80 (run (pre @ [UpdateProgress currentTime' duration']) h)
       \<and> hasScrobbled80 (run (pre @ UpdateProgress currentTime' duration' # post) h)"
proof -
  let ?h1 = "run pre h"
  let ?h2 = "updateProgress currentTime' duration' ?h1"
  have before: "completionReports pre h = []" "\<not> hasScrobbled80 ?h1"
    using no_reports_before [OF assms(2,3)] by simp_all
  have token: "truthy (accessToken ?h1)" and opts: "options ?h1 = options h"
    using assms(1) by (simp_all add: run_token)
  have upd: "?h2 = ?h1\<lparr>lastProgress := (currentTime' / duration') * 100,
      hasScrobbled80 := True,
      scrobbles := scrobbles ?h1
        @ [(Stop, scrobbleData (options ?h1) ((currentTime' / duration') * 100))]\<rparr>"
    using updateProgress_reports [OF token before(2) assms(4,5)] .
  have flag: "hasScrobbled80 ?h2"
    by (subst upd) simp
  have report: "drop (length (scrobbles ?h1)) (scrobbles ?h2) =
      [(Stop, scrobbleData (options h) ((currentTime' / duration') * 100))]"
    by (subst upd) (simp add: opts)
  have after: "completionReports post ?h2 = []" "hasScrobbled80 (run post ?h2)"
    using no_reports_after [OF flag assms(6)] by simp_all
  have run_split: "run (xs @ ys) k = run ys (run xs k)" for xs ys k
    by (induction xs arbitrary: k) simp_all
  have 1: "completionReports (pre @ UpdateProgress currentTime' duration' # post) h =
      [(Stop, scrobbleData (options h) ((currentTime' / duration') * 100))]"
    by (simp add: completionReports_append before(1) report after(1))
  have 2: "progress (scrobbleData (options h) ((currentTime' / duration') * 100)) =
      min 100 ((currentTime' / duration') * 100)"
    using assms(5) by (simp add: scrobbleData_progress)
  have 3: "hasScrobbled80 (run (pre @ [UpdateProgress currentTime' duration']) h)"
    using flag by (simp add: run_split)
  have 4: "hasScrobbled80 (run (pre @ UpdateProgress currentTime' duration' # post) h)"
    using after(2) by (simp add: run_split)
  show ?thesis using 1 2 3 4 by blast
qed

theorem completion_report_once_witness:
  "completionReports
     ([UpdateProgress 100 1200, ScrobbleStart True] @ UpdateProgress 1000 1200
        # [ScrobbleStop 90, UpdateProgress 1100 1200, ScrobbleStop 95])
     (useTrakt (Some ''token'') (UseTraktOptions (Some ''tt0903747'') ''Pilot'' (Some 1) (Some 1)))
   = [(Stop, \<lparr>media = Show ''Pilot'' (Some ''tt0903747'') 1 1, progress = 250 / 3,
             app_version = ''1.0.0''\<rparr>)]"
proof -
  let ?h = "useTrakt (Some ''token'')
      (UseTraktOptions (Some ''tt0903747'') ''Pilot'' (Some 1) (Some 1))"
  have a1: "truthy (accessToken ?h)" and a2: "\<not> hasScrobbled80 ?h"
    by (simp_all add: useTrakt_def truthy_def)
  have a3: "\<forall>e \<in> set [UpdateProgress 100 1200, ScrobbleStart True]. \<not> reaches80 e"
    by simp
  have a4: "(1200::real) \<noteq> 0" and a5: "((1000::real) / 1200) * 100 \<ge> 80"
    by simp_all
  have a6: "\<forall>e \<in> set [ScrobbleStop 90, UpdateProgress 1100 1200, ScrobbleStop 95]. \<not> resets e"
    by simp
  from completion_report_once [OF a1 a2 a3 a4 a5 a6] show ?thesis
    by (simp add: useTrakt_def createScrobbleData_def truthy_def)
qed

text \<open>
  The progress update at position 1300 of a 1200 s video computes a progress of about
  108.3, and the completion report it sends carries 100. Without an access token, the
  progress update at position 1000 sends nothing and sets no flag.
\<close>

theorem completion_report_progress_counterexample:
  "completionReports [UpdateProgress 1300 1200]
     (useTrakt (Some ''token'') (UseTraktOptions (Some ''tt0903747'') ''Pilot'' (Some 1) (Some 1)))
   = [(Stop, \<lparr>media = Show ''Pilot'' (Some ''tt0903747'') 1 1, progress = 100,
             app_version = ''1.0.0''\<rparr>)]
   \<and> ((1300::real) / 1200) * 100 \<ge> 80
   \<and> ((1300::real) / 1200) * 100 \<noteq> 100
   \<and> completionReports [UpdateProgress 1000 1200]
        (useTrakt None (UseTraktOptions (Some ''tt0903747'') ''Pilot'' (Some 1) (Some 1))) = []
   \<and> \<not> hasScrobbled80 (updateProgress 1000 1200
        (useTrakt None (UseTraktOptions (Some ''tt0903747'') ''Pilot'' (Some 1) (Some 1))))"
  by (simp add: useTrakt_def updateProgress_def createScrobbleData_def truthy_def Let_def)


end
